theory Spec2Isabelle
  imports Main "HOL-Library.Word"
begin

section \<open>Shared types (Types.h, RenderAPI.h)\<close>

text \<open>
  A COM object, a GPU resource or an OS handle is identified by a natural number.
  A C++ pointer is a \<open>handle option\<close>: \<open>None\<close> is \<open>nullptr\<close>.  So a call of the
  platform that succeeds yields \<open>Some h\<close> (success always comes with an object), and
  \<open>None\<close> stands for \<open>FAILED(hr)\<close>.
\<close>

type_synonym handle = nat
type_synonym UINT = "32 word"
type_synonym UINT64 = "64 word"

text \<open>\<open>enum class Result\<close> of Types.h.\<close>

datatype Result =
    Success
  | ErrorUnknown
  | ErrorInvalidHandle
  | ErrorNotInitialized
  | ErrorAlreadyInitialized
  | ErrorUnsupportedGraphicsAPI
  | ErrorDeviceCreationFailed
  | ErrorTextureCreationFailed
  | ErrorResourceBarrierFailed
  | ErrorWebViewCreationFailed
  | ErrorCompositionFailed
  | ErrorNavigationFailed

text \<open>
  \<open>UnityGfxDeviceEventType\<close>, as \<open>ProcessDeviceEvent\<close> switches on it; the last
  constructor stands for every integer that reaches the \<open>default\<close> branch.
\<close>

datatype UnityGfxDeviceEventType =
    kUnityGfxDeviceEventInitialize
  | kUnityGfxDeviceEventShutdown
  | kUnityGfxDeviceEventBeforeReset
  | kUnityGfxDeviceEventAfterReset
  | kUnityGfxDeviceEventOther

text \<open>What the host hands over: \<open>interfaces->Get<...>()\<close> and the accessors behind it.\<close>

record IUnityGraphicsD3D11 =
  GetDevice11 :: "handle option"

record IUnityGraphicsD3D12v5 =
  GetDevice :: "handle option"
  GetCommandQueue :: "handle option"

record IUnityInterfaces =
  Get_IUnityGraphicsD3D11 :: "IUnityGraphicsD3D11 option"
  Get_IUnityGraphicsD3D12v5 :: "IUnityGraphicsD3D12v5 option"

text \<open>
  The fields of the descriptors that the code reads.  \<open>D3D12_RESOURCE_DESC.Width\<close> is a
  \<open>UINT64\<close>, every other dimension a \<open>UINT\<close>.
\<close>

record D3D11_TEXTURE2D_DESC =
  Width :: UINT
  Height :: UINT

record D3D12_RESOURCE_DESC =
  Width12 :: UINT64
  Height12 :: UINT

record D3D11_BOX =
  box_left :: UINT
  box_right :: UINT
  box_top :: UINT
  box_bottom :: UINT
  box_front :: UINT
  box_back :: UINT

record D3D11_MAPPED_SUBRESOURCE =
  pData :: UINT64
  RowPitch :: UINT

text \<open>
  A valid \<open>ID3D11Texture2D*\<close>: the object's identity and what \<open>GetDesc\<close> reports.
  A pointer argument is an \<open>ID3D11Texture2D option\<close>.
\<close>

record ID3D11Texture2D =
  tex_ptr :: handle
  tex_desc :: D3D11_TEXTURE2D_DESC

text \<open>
  A valid \<open>ID3D12Resource*\<close> to a 2D texture.  The texture's dimensions are the
  \<open>uint32_t\<close> values \<open>CreateSharedTexture\<close> is given; \<open>GetDesc\<close> reports the width
  widened to \<open>UINT64\<close> (\<open>desc.Width = width\<close>).
\<close>

record ID3D12Resource =
  res_ptr :: handle
  res_width :: UINT
  res_height :: UINT

definition GetDesc12 :: "ID3D12Resource \<Rightarrow> D3D12_RESOURCE_DESC" where
  "GetDesc12 r = \<lparr>Width12 = ucast (res_width r), Height12 = res_height r\<rparr>"

text \<open>
  An \<open>ID3D11Resource\<close> made by \<open>CreateWrappedResource\<close>: its identity and the result of
  \<open>As(&ID3D11Texture2D)\<close> followed by \<open>GetDesc\<close> (\<open>None\<close> when the cast fails).
\<close>

record ID3D11Resource =
  res11_ptr :: handle
  as_texture2d :: "D3D11_TEXTURE2D_DESC option"

text \<open>\<open>struct WrappedResource\<close> of RenderAPI\_D3D12.h.\<close>

record WrappedResource =
  d3d12Resource :: handle
  d3d11Resource :: ID3D11Resource

text \<open>
  An out-parameter \<open>void** outNativePtr\<close>: \<open>None\<close> is a null \<open>void**\<close>, \<open>Some v\<close> points
  to a cell that holds \<open>v\<close>.  A function with an out-parameter returns the cell as it is
  after the call.
\<close>

type_synonym out_ptr = "handle option option"

text \<open>
  The calls into the device, the device contexts and the operating system, in the order
  the code issues them.
\<close>

datatype api_call =
    Call_CreateTexture2D UINT UINT
  | Call_CreateCommittedResource UINT64 UINT
  | Call_Release handle
  | Call_CopyResource handle handle
  | Call_CopySubresourceRegion handle UINT UINT UINT UINT handle UINT D3D11_BOX
  | Call_Flush
  | Call_D3D11On12CreateDevice handle handle
  | Call_Query_ID3D11On12Device
  | Call_CreateDXGIFactory1
  | Call_D3D11CreateDevice "handle option"
  | Call_Query_IDXGIDevice
  | Call_DCompositionCreateDevice handle
  | Call_CreateFence
  | Call_CreateEvent
  | Call_CloseHandle handle
  | Call_Signal handle UINT64
  | Call_SetEventOnCompletion UINT64 handle
  | Call_WaitForSingleObject handle
  | Call_CreateWrappedResource handle
  | Call_CreateStagingTexture UINT UINT
  | Call_CopyResourceToStaging handle handle
  | Call_Map handle
  | Call_Unmap handle
  | Call_AcquireWrappedResources handle
  | Call_ReleaseWrappedResources handle
  | Call_UpdateSubresource handle UINT "D3D11_BOX option" UINT64 UINT UINT

section \<open>The legacy backend (RenderAPI\_D3D11)\<close>

text \<open>
  The three members of the class, then the part of the world the backend acts on: the
  live textures of the device with their dimensions, and the calls issued so far.
\<close>

record RenderAPI_D3D11 =
  m_device :: "handle option"
  m_context :: "handle option"
  m_compositionDevice :: "handle option"
  textures11 :: "handle \<rightharpoonup> D3D11_TEXTURE2D_DESC"
  calls11 :: "api_call list"

definition IsInitialized_D3D11 :: "RenderAPI_D3D11 \<Rightarrow> bool" where
  "IsInitialized_D3D11 s = (m_device s \<noteq> None)"

text \<open>
  \<open>CreateSharedTexture\<close>; \<open>CreateTexture2D_result\<close> is what
  \<open>m_device->CreateTexture2D\<close> answers when it is called.
\<close>

definition CreateSharedTexture_D3D11 ::
  "handle option \<Rightarrow> RenderAPI_D3D11 \<Rightarrow> UINT \<Rightarrow> UINT \<Rightarrow> out_ptr
     \<Rightarrow> Result \<times> out_ptr \<times> RenderAPI_D3D11" where
  "CreateSharedTexture_D3D11 CreateTexture2D_result s width height outNativePtr =
     (if m_device s = None \<or> outNativePtr = None then (ErrorNotInitialized, outNativePtr, s)
      else
        let s1 = s\<lparr>calls11 := calls11 s @ [Call_CreateTexture2D width height]\<rparr> in
        (case CreateTexture2D_result of
           None \<Rightarrow> (ErrorTextureCreationFailed, outNativePtr, s1)
         | Some texture \<Rightarrow>
             (Success, Some (Some texture),
              s1\<lparr>textures11 := (textures11 s1)(texture \<mapsto> \<lparr>Width = width, Height = height\<rparr>)\<rparr>)))"

text \<open>\<open>DestroySharedTexture\<close>: \<open>Release\<close> on the one reference the caller holds.\<close>

definition DestroySharedTexture_D3D11 :: "RenderAPI_D3D11 \<Rightarrow> handle option \<Rightarrow> RenderAPI_D3D11" where
  "DestroySharedTexture_D3D11 s nativePtr =
     (case nativePtr of
        None \<Rightarrow> s
      | Some texture \<Rightarrow>
          s\<lparr>textures11 := (textures11 s)(texture := None),
            calls11 := calls11 s @ [Call_Release texture]\<rparr>)"

definition ResizeSharedTexture_D3D11 ::
  "handle option \<Rightarrow> RenderAPI_D3D11 \<Rightarrow> handle option \<Rightarrow> UINT \<Rightarrow> UINT \<Rightarrow> out_ptr
     \<Rightarrow> Result \<times> out_ptr \<times> RenderAPI_D3D11" where
  "ResizeSharedTexture_D3D11 CreateTexture2D_result s nativePtr newWidth newHeight outNewNativePtr =
     (if outNewNativePtr = None then (ErrorInvalidHandle, outNewNativePtr, s)
      else
        CreateSharedTexture_D3D11 CreateTexture2D_result
          (DestroySharedTexture_D3D11 s nativePtr) newWidth newHeight outNewNativePtr)"

text \<open>
  \<open>InitializeCompositionDevice\<close>, \<open>ReleaseResources\<close> and \<open>ProcessDeviceEvent\<close>.  The
  record says how the platform answers during the call: the immediate context of the
  device, the \<open>IDXGIDevice\<close> cast and \<open>DCompositionCreateDevice\<close>.
\<close>

record D3D11_init_env =
  GetImmediateContext_result :: handle
  Query_IDXGIDevice11_result :: "handle option"
  DCompositionCreateDevice11_result :: "handle option"

definition InitializeCompositionDevice_D3D11 ::
  "D3D11_init_env \<Rightarrow> RenderAPI_D3D11 \<Rightarrow> Result \<times> RenderAPI_D3D11" where
  "InitializeCompositionDevice_D3D11 env s =
     (if m_device s = None then (ErrorNotInitialized, s)
      else
        let s1 = s\<lparr>calls11 := calls11 s @ [Call_Query_IDXGIDevice]\<rparr> in
        (case Query_IDXGIDevice11_result env of
           None \<Rightarrow> (ErrorDeviceCreationFailed, s1)
         | Some dxgiDevice \<Rightarrow>
             let s2 = s1\<lparr>calls11 := calls11 s1 @ [Call_DCompositionCreateDevice dxgiDevice]\<rparr> in
             (case DCompositionCreateDevice11_result env of
                None \<Rightarrow> (ErrorCompositionFailed, s2)
              | Some c \<Rightarrow> (Success, s2\<lparr>m_compositionDevice := Some c\<rparr>))))"

definition ReleaseResources_D3D11 :: "RenderAPI_D3D11 \<Rightarrow> RenderAPI_D3D11" where
  "ReleaseResources_D3D11 s =
     s\<lparr>m_compositionDevice := None, m_context := None, m_device := None\<rparr>"

definition ProcessDeviceEvent_D3D11 ::
  "D3D11_init_env \<Rightarrow> RenderAPI_D3D11 \<Rightarrow> UnityGfxDeviceEventType \<Rightarrow> IUnityInterfaces option
     \<Rightarrow> RenderAPI_D3D11" where
  "ProcessDeviceEvent_D3D11 env s eventType interfaces =
     (if eventType = kUnityGfxDeviceEventInitialize \<or> eventType = kUnityGfxDeviceEventAfterReset then
        (case interfaces of
           None \<Rightarrow> s
         | Some i \<Rightarrow>
             (case Get_IUnityGraphicsD3D11 i of
                None \<Rightarrow> s
              | Some d3d11Interface \<Rightarrow>
                  let s1 = s\<lparr>m_device := GetDevice11 d3d11Interface\<rparr> in
                  if m_device s1 \<noteq> None then
                    snd (InitializeCompositionDevice_D3D11 env
                           (s1\<lparr>m_context := Some (GetImmediateContext_result env)\<rparr>))
                  else s1))
      else if eventType = kUnityGfxDeviceEventShutdown \<or> eventType = kUnityGfxDeviceEventBeforeReset then
        ReleaseResources_D3D11 s
      else s)"

text \<open>
  The body of the Y-flip loop of \<open>CopyCapturedTextureToUnityTexture\<close>:
  \<open>for (UINT y = 0; y < std::min(srcDesc.Height, dstDesc.Height); y++)\<close>, one
  \<open>CopySubresourceRegion\<close> per iteration, all arithmetic in \<open>UINT\<close>.
\<close>

function CopyRows_D3D11 ::
  "handle \<Rightarrow> handle \<Rightarrow> D3D11_TEXTURE2D_DESC \<Rightarrow> D3D11_TEXTURE2D_DESC \<Rightarrow> UINT
     \<Rightarrow> api_call list \<Rightarrow> api_call list" where
  "CopyRows_D3D11 dstTexture srcTexture srcDesc dstDesc y issued =
     (if y < min (Height srcDesc) (Height dstDesc) then
        CopyRows_D3D11 dstTexture srcTexture srcDesc dstDesc (y + 1)
          (issued @
           [Call_CopySubresourceRegion dstTexture 0 0 y 0 srcTexture 0
              \<lparr>box_left = 0,
               box_right = min (Width srcDesc) (Width dstDesc),
               box_top = Height srcDesc - 1 - y,
               box_bottom = Height srcDesc - y,
               box_front = 0,
               box_back = 1\<rparr>])
      else issued)"
  by pat_completeness auto
termination
proof (relation "measure (\<lambda>(dstTexture, srcTexture, srcDesc, dstDesc, y, issued).
                   unat (min (Height srcDesc) (Height dstDesc)) - unat y)")
  show "wf (measure (\<lambda>(dstTexture, srcTexture, srcDesc, dstDesc, y, issued).
              unat (min (Height srcDesc) (Height dstDesc)) - unat y))"
    by simp
next
  fix dstTexture srcTexture :: handle
  fix srcDesc dstDesc :: D3D11_TEXTURE2D_DESC
  fix y :: UINT and issued :: "api_call list"
  assume less: "y < min (Height srcDesc) (Height dstDesc)"
  then have "1 + y \<noteq> 0"
    by (metis add.commute add_neg_numeral_special(8) add_right_cancel word_order.extremum_strict)
  then have "unat (y + 1) = Suc (unat y)"
    by (simp add: unatSuc add.commute)
  moreover from less have "unat y < unat (min (Height srcDesc) (Height dstDesc))"
    by (simp add: word_less_nat_alt)
  ultimately show
    "((dstTexture, srcTexture, srcDesc, dstDesc, y + 1,
       issued @
       [Call_CopySubresourceRegion dstTexture 0 0 y 0 srcTexture 0
          \<lparr>box_left = 0, box_right = min (Width srcDesc) (Width dstDesc),
           box_top = Height srcDesc - 1 - y, box_bottom = Height srcDesc - y,
           box_front = 0, box_back = 1\<rparr>]),
      (dstTexture, srcTexture, srcDesc, dstDesc, y, issued))
     \<in> measure (\<lambda>(dstTexture, srcTexture, srcDesc, dstDesc, y, issued).
                  unat (min (Height srcDesc) (Height dstDesc)) - unat y)"
    by simp
qed

declare CopyRows_D3D11.simps [simp del]

text \<open>
  \<open>CopyCapturedTextureToUnityTexture\<close>: the null checks, the two \<open>GetDesc\<close>, the
  dimension check, then the copy.
\<close>

definition CopyCapturedTextureToUnityTexture_D3D11 ::
  "RenderAPI_D3D11 \<Rightarrow> ID3D11Texture2D option \<Rightarrow> ID3D11Texture2D option \<Rightarrow> bool
     \<Rightarrow> RenderAPI_D3D11" where
  "CopyCapturedTextureToUnityTexture_D3D11 s capturedTexture unityTexturePtr flipY =
     (case capturedTexture of
        None \<Rightarrow> s
      | Some srcTexture \<Rightarrow>
          (case unityTexturePtr of
             None \<Rightarrow> s
           | Some dstTexture \<Rightarrow>
               if m_context s = None then s
               else
                 let srcDesc = tex_desc srcTexture; dstDesc = tex_desc dstTexture in
                 if Width srcDesc \<noteq> Width dstDesc \<or> Height srcDesc \<noteq> Height dstDesc then s
                 else if flipY then
                   s\<lparr>calls11 :=
                       CopyRows_D3D11 (tex_ptr dstTexture) (tex_ptr srcTexture) srcDesc dstDesc 0
                         (calls11 s)\<rparr>
                 else
                   s\<lparr>calls11 :=
                       calls11 s @ [Call_CopyResource (tex_ptr dstTexture) (tex_ptr srcTexture)]\<rparr>))"

section \<open>The explicit backend (RenderAPI\_D3D12)\<close>

text \<open>
  The members of the class in the order of the header, then the world: the live D3D12
  textures, the event handles of the operating system that are open, and the calls
  issued so far.
\<close>

record RenderAPI_D3D12 =
  m_d3d12Device :: "handle option"
  m_d3d12CommandQueue :: "handle option"
  m_d3d11Device :: "handle option"
  m_d3d11Context :: "handle option"
  m_d3d11On12Device :: "handle option"
  m_captureD3D11Device :: "handle option"
  m_captureD3D11Context :: "handle option"
  m_compositionDevice12 :: "handle option"
  m_fence :: "handle option"
  m_fenceEvent :: "handle option"
  m_fenceValue :: UINT64
  m_wrappedResources :: "handle \<rightharpoonup> WrappedResource"
  textures :: "handle \<rightharpoonup> D3D12_RESOURCE_DESC"
  os_events :: "handle set"
  calls :: "api_call list"

definition IsInitialized_D3D12 :: "RenderAPI_D3D12 \<Rightarrow> bool" where
  "IsInitialized_D3D12 s = (m_d3d12Device s \<noteq> None \<and> m_d3d11Device s \<noteq> None)"

text \<open>
  \<open>CreateSharedTexture\<close>; \<open>CreateCommittedResource_result\<close> is what
  \<open>m_d3d12Device->CreateCommittedResource\<close> answers when it is called.
\<close>

definition CreateSharedTexture_D3D12 ::
  "handle option \<Rightarrow> RenderAPI_D3D12 \<Rightarrow> UINT \<Rightarrow> UINT \<Rightarrow> out_ptr
     \<Rightarrow> Result \<times> out_ptr \<times> RenderAPI_D3D12" where
  "CreateSharedTexture_D3D12 CreateCommittedResource_result s width height outNativePtr =
     (if m_d3d12Device s = None \<or> outNativePtr = None then (ErrorNotInitialized, outNativePtr, s)
      else
        let desc = \<lparr>Width12 = ucast width, Height12 = height\<rparr>;
            s1 = s\<lparr>calls := calls s @ [Call_CreateCommittedResource (Width12 desc) (Height12 desc)]\<rparr>
        in
        (case CreateCommittedResource_result of
           None \<Rightarrow> (ErrorTextureCreationFailed, outNativePtr, s1)
         | Some texture \<Rightarrow>
             (Success, Some (Some texture), s1\<lparr>textures := (textures s1)(texture \<mapsto> desc)\<rparr>)))"

text \<open>
  How the platform answers during one \<open>ProcessDeviceEvent\<close>, one field for each call
  whose result the code tests: \<open>D3D11On12CreateDevice\<close> (device and context), the cast to
  \<open>ID3D11On12Device\<close>, the adapter identity of the D3D12 device, \<open>CreateDXGIFactory1\<close>
  (the adapters the factory enumerates), \<open>D3D11CreateDevice\<close> (device and context), the
  cast to \<open>IDXGIDevice\<close>, \<open>DCompositionCreateDevice\<close>, \<open>ID3D12Device::CreateFence\<close> and
  \<open>CreateEvent\<close>.
\<close>

record LUID =
  LowPart :: "32 word"
  HighPart :: "32 word"

record DXGI_ADAPTER =
  adapter_ptr :: handle
  AdapterLuid :: LUID

record D3D12_init_env =
  D3D11On12CreateDevice_result :: "(handle \<times> handle) option"
  Query_ID3D11On12Device_result :: "handle option"
  GetAdapterLuid_result :: LUID
  CreateDXGIFactory1_result :: "DXGI_ADAPTER list option"
  D3D11CreateDevice_result :: "(handle \<times> handle) option"
  Query_IDXGIDevice_result :: "handle option"
  DCompositionCreateDevice_result :: "handle option"
  CreateFence_result :: "handle option"
  CreateEvent_result :: "handle option"

text \<open>
  How the platform answers during one \<open>WaitForGPU\<close>: whether \<open>Signal\<close> succeeds, what
  \<open>GetCompletedValue\<close> reads, whether \<open>SetEventOnCompletion\<close> succeeds.
\<close>

record WaitForGPU_env =
  Signal_ok :: bool
  GetCompletedValue_result :: UINT64
  SetEventOnCompletion_ok :: bool

text \<open>
  \<open>InitializeD3D11On12\<close>.  \<open>&m_d3d11Device\<close>, \<open>&m_d3d11Context\<close> and
  \<open>&m_d3d11On12Device\<close> release what the member holds before the platform writes to it,
  so a failed call leaves the member null.
\<close>

definition InitializeD3D11On12 :: "D3D12_init_env \<Rightarrow> RenderAPI_D3D12 \<Rightarrow> Result \<times> RenderAPI_D3D12" where
  "InitializeD3D11On12 env s =
     (case m_d3d12Device s of
        None \<Rightarrow> (ErrorNotInitialized, s)
      | Some device \<Rightarrow>
          (case m_d3d12CommandQueue s of
             None \<Rightarrow> (ErrorNotInitialized, s)
           | Some queue \<Rightarrow>
               let s1 = s\<lparr>calls := calls s @ [Call_D3D11On12CreateDevice device queue]\<rparr> in
               (case D3D11On12CreateDevice_result env of
                  None \<Rightarrow>
                    (ErrorDeviceCreationFailed, s1\<lparr>m_d3d11Device := None, m_d3d11Context := None\<rparr>)
                | Some (d3d11Device, d3d11Context) \<Rightarrow>
                    let s2 = s1\<lparr>m_d3d11Device := Some d3d11Device,
                                m_d3d11Context := Some d3d11Context,
                                calls := calls s1 @ [Call_Query_ID3D11On12Device]\<rparr> in
                    (case Query_ID3D11On12Device_result env of
                       None \<Rightarrow> (ErrorDeviceCreationFailed, s2\<lparr>m_d3d11On12Device := None\<rparr>)
                     | Some on12 \<Rightarrow> (Success, s2\<lparr>m_d3d11On12Device := Some on12\<rparr>)))))"

text \<open>
  The adapter search of \<open>InitializeCaptureDevice\<close>: \<open>EnumAdapters1(i)\<close> for
  \<open>i = 0, 1, ...\<close> until it fails or an adapter has the LUID of the D3D12 device.
\<close>

fun find_adapter :: "LUID \<Rightarrow> DXGI_ADAPTER list \<Rightarrow> DXGI_ADAPTER option" where
  "find_adapter adapterLuid [] = None"
| "find_adapter adapterLuid (currentAdapter # rest) =
     (if LowPart (AdapterLuid currentAdapter) = LowPart adapterLuid \<and>
         HighPart (AdapterLuid currentAdapter) = HighPart adapterLuid
      then Some currentAdapter
      else find_adapter adapterLuid rest)"

definition InitializeCaptureDevice :: "D3D12_init_env \<Rightarrow> RenderAPI_D3D12 \<Rightarrow> Result \<times> RenderAPI_D3D12" where
  "InitializeCaptureDevice env s =
     (if m_d3d12Device s = None then (ErrorNotInitialized, s)
      else
        let s1 = s\<lparr>calls := calls s @ [Call_CreateDXGIFactory1]\<rparr> in
        (case CreateDXGIFactory1_result env of
           None \<Rightarrow> (ErrorDeviceCreationFailed, s1)
         | Some adapters \<Rightarrow>
             let adapter = find_adapter (GetAdapterLuid_result env) adapters;
                 s2 = s1\<lparr>calls := calls s1 @ [Call_D3D11CreateDevice (map_option adapter_ptr adapter)]\<rparr>
             in
             (case D3D11CreateDevice_result env of
                None \<Rightarrow>
                  (ErrorDeviceCreationFailed,
                   s2\<lparr>m_captureD3D11Device := None, m_captureD3D11Context := None\<rparr>)
              | Some (captureDevice, captureContext) \<Rightarrow>
                  (Success,
                   s2\<lparr>m_captureD3D11Device := Some captureDevice,
                      m_captureD3D11Context := Some captureContext\<rparr>))))"

text \<open>
  \<open>InitializeCompositionDevice\<close>.  The member is passed with \<open>GetAddressOf\<close>, which
  releases nothing; a failed call is taken to leave it as it was.
\<close>

definition InitializeCompositionDevice_D3D12 ::
  "D3D12_init_env \<Rightarrow> RenderAPI_D3D12 \<Rightarrow> Result \<times> RenderAPI_D3D12" where
  "InitializeCompositionDevice_D3D12 env s =
     (if m_d3d11Device s = None then (ErrorNotInitialized, s)
      else
        let s1 = s\<lparr>calls := calls s @ [Call_Query_IDXGIDevice]\<rparr> in
        (case Query_IDXGIDevice_result env of
           None \<Rightarrow> (ErrorDeviceCreationFailed, s1)
         | Some dxgiDevice \<Rightarrow>
             let s2 = s1\<lparr>calls := calls s1 @ [Call_DCompositionCreateDevice dxgiDevice]\<rparr> in
             (case DCompositionCreateDevice_result env of
                None \<Rightarrow> (ErrorCompositionFailed, s2)
              | Some c \<Rightarrow> (Success, s2\<lparr>m_compositionDevice12 := Some c\<rparr>))))"

text \<open>
  \<open>CreateFence\<close>.  \<open>IID_PPV_ARGS(&m_fence)\<close> releases the old fence;
  \<open>m_fenceEvent = CreateEvent(...)\<close> is a plain assignment to a raw \<open>HANDLE\<close>.  An event
  that \<open>CreateEvent\<close> returns is open until \<open>CloseHandle\<close> is called on it.
\<close>

definition CreateFence :: "D3D12_init_env \<Rightarrow> RenderAPI_D3D12 \<Rightarrow> Result \<times> RenderAPI_D3D12" where
  "CreateFence env s =
     (if m_d3d12Device s = None then (ErrorNotInitialized, s)
      else
        let s1 = s\<lparr>calls := calls s @ [Call_CreateFence]\<rparr> in
        (case CreateFence_result env of
           None \<Rightarrow> (ErrorDeviceCreationFailed, s1\<lparr>m_fence := None\<rparr>)
         | Some fence \<Rightarrow>
             let s2 = s1\<lparr>m_fence := Some fence, calls := calls s1 @ [Call_CreateEvent]\<rparr> in
             (case CreateEvent_result env of
                None \<Rightarrow> (ErrorDeviceCreationFailed, s2\<lparr>m_fenceEvent := None\<rparr>)
              | Some event \<Rightarrow>
                  (Success,
                   s2\<lparr>m_fenceEvent := Some event, os_events := insert event (os_events s2)\<rparr>))))"

text \<open>\<open>WaitForGPU\<close>; \<open>++m_fenceValue\<close> wraps at \<open>2^64\<close>.\<close>

definition WaitForGPU :: "WaitForGPU_env \<Rightarrow> RenderAPI_D3D12 \<Rightarrow> RenderAPI_D3D12" where
  "WaitForGPU env s =
     (case m_d3d12CommandQueue s of
        None \<Rightarrow> s
      | Some queue \<Rightarrow>
          (case m_fence s of
             None \<Rightarrow> s
           | Some fence \<Rightarrow>
               (case m_fenceEvent s of
                  None \<Rightarrow> s
                | Some event \<Rightarrow>
                    let fenceValueToWait = m_fenceValue s + 1;
                        s1 = s\<lparr>m_fenceValue := fenceValueToWait,
                               calls := calls s @ [Call_Signal fence fenceValueToWait]\<rparr>
                    in
                    if \<not> Signal_ok env then s1
                    else if GetCompletedValue_result env < fenceValueToWait then
                      (let s2 = s1\<lparr>calls := calls s1 @ [Call_SetEventOnCompletion fenceValueToWait event]\<rparr>
                       in if SetEventOnCompletion_ok env
                          then s2\<lparr>calls := calls s2 @ [Call_WaitForSingleObject event]\<rparr>
                          else s2)
                    else s1)))"

definition ReleaseResources_D3D12 :: "WaitForGPU_env \<Rightarrow> RenderAPI_D3D12 \<Rightarrow> RenderAPI_D3D12" where
  "ReleaseResources_D3D12 wenv s =
     (let s1 = WaitForGPU wenv s;
          s2 = s1\<lparr>m_wrappedResources := Map.empty\<rparr>;
          s3 = (case m_fenceEvent s2 of
                  None \<Rightarrow> s2
                | Some event \<Rightarrow>
                    s2\<lparr>m_fenceEvent := None,
                       os_events := os_events s2 - {event},
                       calls := calls s2 @ [Call_CloseHandle event]\<rparr>)
      in s3\<lparr>m_fence := None,
            m_compositionDevice12 := None,
            m_captureD3D11Context := None,
            m_captureD3D11Device := None,
            m_d3d11On12Device := None,
            m_d3d11Context := None,
            m_d3d11Device := None,
            m_d3d12CommandQueue := None,
            m_d3d12Device := None\<rparr>)"

text \<open>
  \<open>ProcessDeviceEvent\<close>: each of the four steps is called in turn and a result other
  than \<open>Success\<close> returns at once.
\<close>

definition ProcessDeviceEvent_D3D12 ::
  "D3D12_init_env \<Rightarrow> WaitForGPU_env \<Rightarrow> RenderAPI_D3D12 \<Rightarrow> UnityGfxDeviceEventType
     \<Rightarrow> IUnityInterfaces option \<Rightarrow> RenderAPI_D3D12" where
  "ProcessDeviceEvent_D3D12 env wenv s eventType interfaces =
     (if eventType = kUnityGfxDeviceEventInitialize \<or> eventType = kUnityGfxDeviceEventAfterReset then
        (case interfaces of
           None \<Rightarrow> s
         | Some i \<Rightarrow>
             (case Get_IUnityGraphicsD3D12v5 i of
                None \<Rightarrow> s
              | Some d3d12Interface \<Rightarrow>
                  let s0 = s\<lparr>m_d3d12Device := GetDevice d3d12Interface,
                              m_d3d12CommandQueue := GetCommandQueue d3d12Interface\<rparr> in
                  if m_d3d12Device s0 \<noteq> None \<and> m_d3d12CommandQueue s0 \<noteq> None then
                    (case InitializeD3D11On12 env s0 of
                       (result1, s1) \<Rightarrow>
                         if result1 \<noteq> Success then s1
                         else
                           (case InitializeCaptureDevice env s1 of
                              (result2, s2) \<Rightarrow>
                                if result2 \<noteq> Success then s2
                                else
                                  (case InitializeCompositionDevice_D3D12 env s2 of
                                     (result3, s3) \<Rightarrow>
                                       if result3 \<noteq> Success then s3
                                       else
                                         (case CreateFence env s3 of
                                            (result4, s4) \<Rightarrow> s4))))
                  else s0))
      else if eventType = kUnityGfxDeviceEventShutdown \<or> eventType = kUnityGfxDeviceEventBeforeReset then
        ReleaseResources_D3D12 wenv s
      else s)"

text \<open>
  \<open>DestroySharedTexture\<close>: erase the wrapper cached for the pointer, then \<open>Release\<close> the
  one reference the caller holds.
\<close>

definition DestroySharedTexture_D3D12 :: "RenderAPI_D3D12 \<Rightarrow> handle option \<Rightarrow> RenderAPI_D3D12" where
  "DestroySharedTexture_D3D12 s nativePtr =
     (case nativePtr of
        None \<Rightarrow> s
      | Some resource \<Rightarrow>
          s\<lparr>m_wrappedResources := (m_wrappedResources s)(resource := None),
            textures := (textures s)(resource := None),
            calls := calls s @ [Call_Release resource]\<rparr>)"

definition ResizeSharedTexture_D3D12 ::
  "WaitForGPU_env \<Rightarrow> handle option \<Rightarrow> RenderAPI_D3D12 \<Rightarrow> handle option \<Rightarrow> UINT \<Rightarrow> UINT \<Rightarrow> out_ptr
     \<Rightarrow> Result \<times> out_ptr \<times> RenderAPI_D3D12" where
  "ResizeSharedTexture_D3D12 wenv CreateCommittedResource_result s nativePtr newWidth newHeight
       outNewNativePtr =
     (if outNewNativePtr = None then (ErrorInvalidHandle, outNewNativePtr, s)
      else
        CreateSharedTexture_D3D12 CreateCommittedResource_result
          (DestroySharedTexture_D3D12 (WaitForGPU wenv s) nativePtr)
          newWidth newHeight outNewNativePtr)"

text \<open>
  The second half of \<open>GetOrCreateWrappedResource\<close> (from the test of
  \<open>m_d3d11On12Device\<close> on): wrap the resource and store the wrapper under its pointer.
  \<open>CreateWrappedResource_result\<close> is what \<open>CreateWrappedResource\<close> answers when it is
  called; the D3D11 view it makes is a 2D texture of the dimensions of the resource.
\<close>

definition WrapAndStore ::
  "handle option \<Rightarrow> RenderAPI_D3D12 \<Rightarrow> ID3D12Resource \<Rightarrow> WrappedResource option \<times> RenderAPI_D3D12" where
  "WrapAndStore CreateWrappedResource_result s d3d12Resource_arg =
     (if m_d3d11On12Device s = None then (None, s)
      else
        let currentDesc = GetDesc12 d3d12Resource_arg;
            s1 = s\<lparr>calls := calls s @ [Call_CreateWrappedResource (res_ptr d3d12Resource_arg)]\<rparr>
        in
        (case CreateWrappedResource_result of
           None \<Rightarrow> (None, s1)
         | Some d3d11 \<Rightarrow>
             let wrapped =
                   \<lparr>d3d12Resource = res_ptr d3d12Resource_arg,
                    d3d11Resource =
                      \<lparr>res11_ptr = d3d11,
                       as_texture2d =
                         Some \<lparr>Width = ucast (Width12 currentDesc), Height = Height12 currentDesc\<rparr>\<rparr>\<rparr>
             in
             (Some wrapped,
              s1\<lparr>m_wrappedResources :=
                    (m_wrappedResources s1)(res_ptr d3d12Resource_arg \<mapsto> wrapped)\<rparr>)))"

text \<open>
  \<open>GetOrCreateWrappedResource\<close>.  \<open>cachedDesc.Width != currentDesc.Width\<close> compares a
  \<open>UINT\<close> with a \<open>UINT64\<close>, so the \<open>UINT\<close> is widened.  The result is the wrapper the
  returned pointer points to, \<open>None\<close> for \<open>nullptr\<close>.
\<close>

definition GetOrCreateWrappedResource ::
  "handle option \<Rightarrow> RenderAPI_D3D12 \<Rightarrow> ID3D12Resource \<Rightarrow> WrappedResource option \<times> RenderAPI_D3D12" where
  "GetOrCreateWrappedResource CreateWrappedResource_result s d3d12Resource_arg =
     (let currentDesc = GetDesc12 d3d12Resource_arg;
          d3d12TexturePtr = res_ptr d3d12Resource_arg
      in
      case m_wrappedResources s d3d12TexturePtr of
        None \<Rightarrow> WrapAndStore CreateWrappedResource_result s d3d12Resource_arg
      | Some cached \<Rightarrow>
          (case as_texture2d (d3d11Resource cached) of
             None \<Rightarrow> WrapAndStore CreateWrappedResource_result s d3d12Resource_arg
           | Some cachedDesc \<Rightarrow>
               if ucast (Width cachedDesc) \<noteq> Width12 currentDesc \<or>
                  Height cachedDesc \<noteq> Height12 currentDesc
               then
                 WrapAndStore CreateWrappedResource_result
                   (s\<lparr>m_wrappedResources := (m_wrappedResources s)(d3d12TexturePtr := None)\<rparr>)
                   d3d12Resource_arg
               else (Some cached, s)))"

definition BeginRenderToTexture_D3D12 ::
  "handle option \<Rightarrow> RenderAPI_D3D12 \<Rightarrow> ID3D12Resource option \<Rightarrow> RenderAPI_D3D12" where
  "BeginRenderToTexture_D3D12 CreateWrappedResource_result s texturePtr =
     (if m_d3d11On12Device s = None then s
      else
        (case texturePtr of
           None \<Rightarrow> s
         | Some texture \<Rightarrow>
             (case GetOrCreateWrappedResource CreateWrappedResource_result s texture of
                (None, s1) \<Rightarrow> s1
              | (Some wrapped, s1) \<Rightarrow>
                  s1\<lparr>calls := calls s1 @
                       [Call_AcquireWrappedResources (res11_ptr (d3d11Resource wrapped))]\<rparr>)))"

text \<open>
  \<open>EndRenderToTexture\<close> looks the pointer up in the cache and calls
  \<open>m_d3d11Context->Flush()\<close> without a test of \<open>m_d3d11Context\<close>: the result \<open>None\<close> is
  the null dereference.
\<close>

definition EndRenderToTexture_D3D12 :: "RenderAPI_D3D12 \<Rightarrow> handle option \<Rightarrow> RenderAPI_D3D12 option" where
  "EndRenderToTexture_D3D12 s texturePtr =
     (if m_d3d11On12Device s = None then Some s
      else
        (case texturePtr of
           None \<Rightarrow> Some s
         | Some p \<Rightarrow>
             (case m_wrappedResources s p of
                None \<Rightarrow> Some s
              | Some wrapped \<Rightarrow>
                  (case m_d3d11Context s of
                     None \<Rightarrow> None
                   | Some ctx \<Rightarrow>
                       Some (s\<lparr>calls := calls s @
                                 [Call_ReleaseWrappedResources (res11_ptr (d3d11Resource wrapped)),
                                  Call_Flush]\<rparr>)))))"

text \<open>
  The Y-flip loop of the explicit backend:
  \<open>for (UINT y = 0; y < minHeight; y++)\<close>, one \<open>UpdateSubresource\<close> of a one-row box per
  iteration.  \<open>srcY * mapped.RowPitch\<close> is a product of two \<open>UINT\<close>, added to the mapped
  pointer.
\<close>

function UpdateRows_D3D12 ::
  "handle \<Rightarrow> D3D11_TEXTURE2D_DESC \<Rightarrow> D3D11_MAPPED_SUBRESOURCE \<Rightarrow> UINT \<Rightarrow> UINT \<Rightarrow> UINT
     \<Rightarrow> api_call list \<Rightarrow> api_call list" where
  "UpdateRows_D3D12 dstTexture srcDesc mapped minWidth minHeight y issued =
     (if y < minHeight then
        (let srcY = Height srcDesc - 1 - y;
             srcRow = pData mapped + ucast (srcY * RowPitch mapped);
             dstBox = \<lparr>box_left = 0, box_right = minWidth, box_top = y, box_bottom = y + 1,
                       box_front = 0, box_back = 1\<rparr>
         in UpdateRows_D3D12 dstTexture srcDesc mapped minWidth minHeight (y + 1)
              (issued @ [Call_UpdateSubresource dstTexture 0 (Some dstBox) srcRow (RowPitch mapped) 0]))
      else issued)"
  by pat_completeness auto
termination
proof (relation "measure (\<lambda>(dstTexture, srcDesc, mapped, minWidth, minHeight, y, issued).
                   unat minHeight - unat y)")
  show "wf (measure (\<lambda>(dstTexture, srcDesc, mapped, minWidth, minHeight, y, issued).
              unat minHeight - unat y))"
    by simp
next
  fix dstTexture :: handle and srcDesc :: D3D11_TEXTURE2D_DESC
  fix mapped :: D3D11_MAPPED_SUBRESOURCE
  fix minWidth minHeight y :: UINT and issued :: "api_call list"
  fix srcRow :: UINT64 and dstBox :: D3D11_BOX
  assume less: "y < minHeight"
  then have "1 + y \<noteq> 0"
    by (metis add.commute add_neg_numeral_special(8) add_right_cancel word_order.extremum_strict)
  then have "unat (y + 1) = Suc (unat y)"
    by (simp add: unatSuc add.commute)
  moreover from less have "unat y < unat minHeight"
    by (simp add: word_less_nat_alt)
  ultimately show
    "((dstTexture, srcDesc, mapped, minWidth, minHeight, y + 1,
       issued @ [Call_UpdateSubresource dstTexture 0 (Some dstBox) srcRow (RowPitch mapped) 0]),
      (dstTexture, srcDesc, mapped, minWidth, minHeight, y, issued))
     \<in> measure (\<lambda>(dstTexture, srcDesc, mapped, minWidth, minHeight, y, issued).
                  unat minHeight - unat y)"
    by simp
qed

declare UpdateRows_D3D12.simps [simp del]

text \<open>
  How the platform answers during one \<open>CopyCapturedTextureToUnityTexture\<close>:
  \<open>CreateWrappedResource\<close>, \<open>CreateTexture2D\<close> of the staging texture on the capture
  device, and \<open>Map\<close> of the staging texture.
\<close>

record Copy_env =
  CreateWrappedResource_result :: "handle option"
  CreateStagingTexture_result :: "handle option"
  Map_result :: "D3D11_MAPPED_SUBRESOURCE option"

text \<open>
  \<open>CopyCapturedTextureToUnityTexture\<close>.  The members \<open>m_captureD3D11Device\<close>,
  \<open>m_captureD3D11Context\<close>, \<open>m_d3d11On12Device\<close> and \<open>m_d3d11Context\<close> are dereferenced
  without a test: the result \<open>None\<close> is a null dereference, \<open>Some s'\<close> a normal return
  with the backend \<open>s'\<close>.
\<close>

definition CopyCapturedTextureToUnityTexture_D3D12 ::
  "Copy_env \<Rightarrow> RenderAPI_D3D12 \<Rightarrow> ID3D11Texture2D option \<Rightarrow> ID3D12Resource option \<Rightarrow> bool
     \<Rightarrow> RenderAPI_D3D12 option" where
  "CopyCapturedTextureToUnityTexture_D3D12 env s capturedTexture unityTexturePtr flipY =
     (case capturedTexture of
        None \<Rightarrow> Some s
      | Some srcTexture \<Rightarrow>
      (case unityTexturePtr of
        None \<Rightarrow> Some s
      | Some d3d12Resource_arg \<Rightarrow>
      let srcDesc = tex_desc srcTexture;
          d3d12Desc = GetDesc12 d3d12Resource_arg;
          d3d12Width = (ucast (Width12 d3d12Desc) :: UINT);
          d3d12Height = Height12 d3d12Desc
      in
      if Width srcDesc \<noteq> d3d12Width \<or> Height srcDesc \<noteq> d3d12Height then Some s
      else
      (case GetOrCreateWrappedResource (CreateWrappedResource_result env) s d3d12Resource_arg of
        (None, s1) \<Rightarrow> Some s1
      | (Some wrapped, s1) \<Rightarrow>
      (case as_texture2d (d3d11Resource wrapped) of
        None \<Rightarrow> Some s1
      | Some dstDesc \<Rightarrow>
      if Width srcDesc \<noteq> Width dstDesc \<or> Height srcDesc \<noteq> Height dstDesc then Some s1
      else
      (case m_captureD3D11Device s1 of
        None \<Rightarrow> None
      | Some captureDevice \<Rightarrow>
      let s2 = s1\<lparr>calls := calls s1 @ [Call_CreateStagingTexture (Width srcDesc) (Height srcDesc)]\<rparr> in
      (case CreateStagingTexture_result env of
        None \<Rightarrow> Some s2
      | Some stagingTexture \<Rightarrow>
      (case m_captureD3D11Context s2 of
        None \<Rightarrow> None
      | Some captureContext \<Rightarrow>
      let s3 = s2\<lparr>calls := calls s2 @
                  [Call_CopyResourceToStaging stagingTexture (tex_ptr srcTexture),
                   Call_Map stagingTexture]\<rparr> in
      (case Map_result env of
        None \<Rightarrow> Some s3
      | Some mapped \<Rightarrow>
      (case m_d3d11On12Device s3 of
        None \<Rightarrow> None
      | Some on12 \<Rightarrow>
      (case m_d3d11Context s3 of
        None \<Rightarrow> None
      | Some ctx \<Rightarrow>
      let dstTexture = res11_ptr (d3d11Resource wrapped);
          s4 = s3\<lparr>calls := calls s3 @ [Call_AcquireWrappedResources dstTexture]\<rparr>;
          minWidth = min (Width srcDesc) (Width dstDesc);
          minHeight = min (Height srcDesc) (Height dstDesc);
          s5 = (if flipY
                then s4\<lparr>calls := UpdateRows_D3D12 dstTexture srcDesc mapped minWidth minHeight 0
                                     (calls s4)\<rparr>
                else s4\<lparr>calls := calls s4 @
                       [Call_UpdateSubresource dstTexture 0 None (pData mapped) (RowPitch mapped) 0]\<rparr>)
      in
      Some (s5\<lparr>calls := calls s5 @
                [Call_Unmap stagingTexture,
                 Call_ReleaseWrappedResources dstTexture,
                 Call_Flush]\<rparr>)))))))))))"

text \<open>The default-constructed backends (every member null, \<open>m_fenceValue = 0\<close>).\<close>

definition RenderAPI_D3D11_new :: RenderAPI_D3D11 where
  "RenderAPI_D3D11_new =
     \<lparr>m_device = None, m_context = None, m_compositionDevice = None,
      textures11 = Map.empty, calls11 = []\<rparr>"

definition RenderAPI_D3D12_new :: RenderAPI_D3D12 where
  "RenderAPI_D3D12_new =
     \<lparr>m_d3d12Device = None, m_d3d12CommandQueue = None, m_d3d11Device = None,
      m_d3d11Context = None, m_d3d11On12Device = None, m_captureD3D11Device = None,
      m_captureD3D11Context = None, m_compositionDevice12 = None, m_fence = None,
      m_fenceEvent = None, m_fenceValue = 0, m_wrappedResources = Map.empty,
      textures = Map.empty, os_events = {}, calls = []\<rparr>"

section \<open>The capture session (WebViewCapture)\<close>

text \<open>
  What the capture reads through \<open>m_webView\<close> and \<open>m_renderAPI\<close>, and a
  \<open>SizeInt32\<close> (two \<open>int32_t\<close>, read with \<open>sint\<close>).
\<close>

record WebView =
  IsReady :: bool
  GetEnvironment :: "handle option"
  GetCompositionController :: "handle option"
  GetHostWindow :: "handle option"
  GetWidth :: UINT
  GetHeight :: UINT

record IRenderAPI =
  GetCaptureD3D11Device :: "handle option"

record SizeInt32 =
  size_Width :: "32 word"
  size_Height :: "32 word"

datatype capture_call =
    Call_FramePool_Create SizeInt32 nat
  | Call_StartCapture handle

text \<open>
  The members of the class, and the calls of the capture API that matter here: the
  creation of the frame pool and \<open>StartCapture\<close>.
\<close>

record WebViewCapture =
  m_webView :: "WebView option"
  m_renderAPI :: IRenderAPI
  m_compositor :: "handle option"
  m_rootVisual :: "handle option"
  m_webViewVisual :: "handle option"
  m_windowTarget :: "handle option"
  m_captureItem :: "handle option"
  m_framePool :: "handle option"
  m_session :: "handle option"
  m_d3dDevice :: "handle option"
  capture_calls :: "capture_call list"

text \<open>How a block of code ends: by falling off its end or returning, or by a C++ exception.\<close>

datatype completion = Normal | Exception

text \<open>
  How the platform answers during \<open>InitializeVisualTree\<close>.  The calls between two
  assignments to members are one field: \<open>None\<close> or \<open>False\<close> when one of them throws
  (\<open>winrt::check_hresult\<close>, \<open>as<...>()\<close>, a WinRT method).
\<close>

record VisualTree_env =
  Compositor_result :: "handle option"
  CreateDesktopWindowTarget_result :: "handle option"
  CreateRootVisual_result :: "handle option"
  SetRoot_ok :: bool
  CreateWebViewVisual_result :: "handle option"
  AttachWebViewVisual_ok :: bool

text \<open>The \<open>try\<close> block of \<open>InitializeVisualTree\<close>, with the state at the point it is left.\<close>

definition InitializeVisualTree_try ::
  "VisualTree_env \<Rightarrow> WebView \<Rightarrow> WebViewCapture \<Rightarrow> completion \<times> WebViewCapture" where
  "InitializeVisualTree_try env webView s =
     (if GetEnvironment webView = None \<or> GetCompositionController webView = None \<or>
         GetHostWindow webView = None
      then (Normal, s)
      else
        (case Compositor_result env of
           None \<Rightarrow> (Exception, s)
         | Some compositor \<Rightarrow>
        let s1 = s\<lparr>m_compositor := Some compositor\<rparr> in
        (case CreateDesktopWindowTarget_result env of
           None \<Rightarrow> (Exception, s1)
         | Some windowTarget \<Rightarrow>
        let s2 = s1\<lparr>m_windowTarget := Some windowTarget\<rparr> in
        (case CreateRootVisual_result env of
           None \<Rightarrow> (Exception, s2)
         | Some rootVisual \<Rightarrow>
        let s3 = s2\<lparr>m_rootVisual := Some rootVisual\<rparr> in
        if \<not> SetRoot_ok env then (Exception, s3)
        else
        (case CreateWebViewVisual_result env of
           None \<Rightarrow> (Exception, s3)
         | Some webViewVisual \<Rightarrow>
        let s4 = s3\<lparr>m_webViewVisual := Some webViewVisual\<rparr> in
        if \<not> AttachWebViewVisual_ok env then (Exception, s4) else (Normal, s4))))))"

text \<open>\<open>InitializeVisualTree\<close>: the \<open>try\<close> block under \<open>catch (...) { }\<close>.\<close>

definition InitializeVisualTree ::
  "VisualTree_env \<Rightarrow> WebView \<Rightarrow> WebViewCapture \<Rightarrow> completion \<times> WebViewCapture" where
  "InitializeVisualTree env webView s =
     (case InitializeVisualTree_try env webView s of
        (Exception, s') \<Rightarrow> (Normal, s')
      | (Normal, s') \<Rightarrow> (Normal, s'))"

text \<open>
  How the platform answers during \<open>InitializeGraphicsCapture\<close>.  A failed \<open>HRESULT\<close>
  that the code tests: the \<open>IDXGIDevice\<close> cast, \<open>CreateDirect3D11DeviceFromDXGIDevice\<close>,
  \<open>CreateForWindow\<close> (the item comes with its \<open>Size()\<close>).  A call that throws:
  \<open>as<IDirect3DDevice>()\<close>, \<open>get_activation_factory\<close>, the creation of the frame pool
  and of the session, \<open>StartCapture\<close>.
\<close>

record GraphicsCapture_env =
  Query_IDXGIDevice_capture_ok :: bool
  CreateDirect3D11Device_result :: "handle option"
  as_IDirect3DDevice_ok :: bool
  IsWindow_result :: bool
  get_activation_factory_ok :: bool
  CreateForWindow_result :: "(handle \<times> SizeInt32) option"
  FramePool_Create_result :: "handle option"
  CreateCaptureSession_result :: "handle option"
  StartCapture_ok :: bool

text \<open>The \<open>try\<close> block of \<open>InitializeGraphicsCapture\<close>.\<close>

definition InitializeGraphicsCapture_try ::
  "GraphicsCapture_env \<Rightarrow> WebView \<Rightarrow> WebViewCapture \<Rightarrow> completion \<times> WebViewCapture" where
  "InitializeGraphicsCapture_try env webView s =
     (case GetCaptureD3D11Device (m_renderAPI s) of
        None \<Rightarrow> (Normal, s)
      | Some d3dDevice \<Rightarrow>
     if \<not> Query_IDXGIDevice_capture_ok env then (Normal, s)
     else
     (case CreateDirect3D11Device_result env of
        None \<Rightarrow> (Normal, s)
      | Some inspectable \<Rightarrow>
     if \<not> as_IDirect3DDevice_ok env then (Exception, s)
     else
     let s1 = s\<lparr>m_d3dDevice := Some inspectable\<rparr> in
     (case GetHostWindow webView of
        None \<Rightarrow> (Normal, s1)
      | Some hwnd \<Rightarrow>
     if \<not> IsWindow_result env then (Normal, s1)
     else if \<not> get_activation_factory_ok env then (Exception, s1)
     else
     (case CreateForWindow_result env of
        None \<Rightarrow> (Normal, s1)
      | Some (captureItem, itemSize) \<Rightarrow>
     let size =
           \<lparr>size_Width = (if sint (size_Width itemSize) \<le> 0 then GetWidth webView
                           else size_Width itemSize),
            size_Height = (if sint (size_Height itemSize) \<le> 0 then GetHeight webView
                            else size_Height itemSize)\<rparr>;
         s2 = s1\<lparr>capture_calls := capture_calls s1 @ [Call_FramePool_Create size 2]\<rparr>
     in
     (case FramePool_Create_result env of
        None \<Rightarrow> (Exception, s2)
      | Some framePool \<Rightarrow>
     (case CreateCaptureSession_result env of
        None \<Rightarrow> (Exception, s2)
      | Some session \<Rightarrow>
     let s3 = s2\<lparr>m_captureItem := Some captureItem,
                 m_framePool := Some framePool,
                 m_session := Some session\<rparr> in
     if \<not> StartCapture_ok env then (Exception, s3)
     else (Normal, s3\<lparr>capture_calls := capture_calls s3 @ [Call_StartCapture session]\<rparr>)))))))"

text \<open>\<open>InitializeGraphicsCapture\<close>: the \<open>try\<close> block under its three \<open>catch\<close> clauses.\<close>

definition InitializeGraphicsCapture ::
  "GraphicsCapture_env \<Rightarrow> WebView \<Rightarrow> WebViewCapture \<Rightarrow> completion \<times> WebViewCapture" where
  "InitializeGraphicsCapture env webView s =
     (case InitializeGraphicsCapture_try env webView s of
        (Exception, s') \<Rightarrow> (Normal, s')
      | (Normal, s') \<Rightarrow> (Normal, s'))"

text \<open>
  \<open>Initialize\<close>: the readiness test, then the two steps inside \<open>try\<close>; an exception
  that reaches \<open>catch (...)\<close> gives \<open>ErrorUnknown\<close>.
\<close>

definition Initialize ::
  "VisualTree_env \<Rightarrow> GraphicsCapture_env \<Rightarrow> WebViewCapture \<Rightarrow> Result \<times> WebViewCapture" where
  "Initialize vt_env gc_env s =
     (case m_webView s of
        None \<Rightarrow> (ErrorNotInitialized, s)
      | Some webView \<Rightarrow>
          if \<not> IsReady webView then (ErrorNotInitialized, s)
          else
            (case InitializeVisualTree vt_env webView s of
               (Exception, s1) \<Rightarrow> (ErrorUnknown, s1)
             | (Normal, s1) \<Rightarrow>
                 (case InitializeGraphicsCapture gc_env webView s1 of
                    (Exception, s2) \<Rightarrow> (ErrorUnknown, s2)
                  | (Normal, s2) \<Rightarrow> (Success, s2))))"

section \<open>A host and a platform for the examples\<close>

text \<open>
  A host that hands over a device and a command queue, a platform on which every call
  succeeds (each new object has its own identity), and the two backends after the
  initialize event on them.
\<close>

definition ex_interfaces :: IUnityInterfaces where
  "ex_interfaces =
     \<lparr>Get_IUnityGraphicsD3D11 = Some \<lparr>GetDevice11 = Some 1\<rparr>,
      Get_IUnityGraphicsD3D12v5 = Some \<lparr>GetDevice = Some 1, GetCommandQueue = Some 2\<rparr>\<rparr>"

definition ex_init11 :: D3D11_init_env where
  "ex_init11 =
     \<lparr>GetImmediateContext_result = 3,
      Query_IDXGIDevice11_result = Some 4,
      DCompositionCreateDevice11_result = Some 5\<rparr>"

definition ex_init :: D3D12_init_env where
  "ex_init =
     \<lparr>D3D11On12CreateDevice_result = Some (3, 4),
      Query_ID3D11On12Device_result = Some 5,
      GetAdapterLuid_result = \<lparr>LowPart = 77, HighPart = 0\<rparr>,
      CreateDXGIFactory1_result =
        Some [\<lparr>adapter_ptr = 20, AdapterLuid = \<lparr>LowPart = 76, HighPart = 0\<rparr>\<rparr>,
              \<lparr>adapter_ptr = 21, AdapterLuid = \<lparr>LowPart = 77, HighPart = 0\<rparr>\<rparr>],
      D3D11CreateDevice_result = Some (6, 7),
      Query_IDXGIDevice_result = Some 8,
      DCompositionCreateDevice_result = Some 9,
      CreateFence_result = Some 10,
      CreateEvent_result = Some 11\<rparr>"

definition ex_wait :: WaitForGPU_env where
  "ex_wait = \<lparr>Signal_ok = True, GetCompletedValue_result = 0, SetEventOnCompletion_ok = True\<rparr>"

definition ex_d3d11 :: RenderAPI_D3D11 where
  "ex_d3d11 =
     ProcessDeviceEvent_D3D11 ex_init11 RenderAPI_D3D11_new kUnityGfxDeviceEventInitialize
       (Some ex_interfaces)"

definition ex_d3d12 :: RenderAPI_D3D12 where
  "ex_d3d12 =
     ProcessDeviceEvent_D3D12 ex_init ex_wait RenderAPI_D3D12_new kUnityGfxDeviceEventInitialize
       (Some ex_interfaces)"

text \<open>
  The backends after \<open>CreateSharedTexture(800, 600)\<close>, the texture seen through its
  pointer, the explicit backend after the texture has been wrapped, a captured frame of
  the same size, and a platform for a second initialize event.
\<close>

definition ex_d3d11_tex :: RenderAPI_D3D11 where
  "ex_d3d11_tex = snd (snd (CreateSharedTexture_D3D11 (Some 50) ex_d3d11 800 600 (Some None)))"

definition ex_d3d12_tex :: RenderAPI_D3D12 where
  "ex_d3d12_tex = snd (snd (CreateSharedTexture_D3D12 (Some 50) ex_d3d12 800 600 (Some None)))"

definition ex_resource :: ID3D12Resource where
  "ex_resource = \<lparr>res_ptr = 50, res_width = 800, res_height = 600\<rparr>"

definition ex_d3d12_wrapped :: RenderAPI_D3D12 where
  "ex_d3d12_wrapped = snd (GetOrCreateWrappedResource (Some 60) ex_d3d12_tex ex_resource)"

definition ex_captured :: ID3D11Texture2D where
  "ex_captured = \<lparr>tex_ptr = 70, tex_desc = \<lparr>Width = 800, Height = 600\<rparr>\<rparr>"

definition ex_init_again :: D3D12_init_env where
  "ex_init_again =
     \<lparr>D3D11On12CreateDevice_result = Some (13, 14),
      Query_ID3D11On12Device_result = Some 15,
      GetAdapterLuid_result = \<lparr>LowPart = 77, HighPart = 0\<rparr>,
      CreateDXGIFactory1_result =
        Some [\<lparr>adapter_ptr = 20, AdapterLuid = \<lparr>LowPart = 76, HighPart = 0\<rparr>\<rparr>,
              \<lparr>adapter_ptr = 21, AdapterLuid = \<lparr>LowPart = 77, HighPart = 0\<rparr>\<rparr>],
      D3D11CreateDevice_result = Some (16, 17),
      Query_IDXGIDevice_result = Some 18,
      DCompositionCreateDevice_result = Some 19,
      CreateFence_result = Some 22,
      CreateEvent_result = Some 12\<rparr>"

text \<open>
  A capture session on a ready WebView whose backend has no capture device, and a
  platform on which every call of the capture set-up succeeds.
\<close>

definition ex_webview :: WebView where
  "ex_webview =
     \<lparr>IsReady = True, GetEnvironment = Some 80, GetCompositionController = Some 81,
      GetHostWindow = Some 82, GetWidth = 800, GetHeight = 600\<rparr>"

definition ex_capture :: WebViewCapture where
  "ex_capture =
     \<lparr>m_webView = Some ex_webview, m_renderAPI = \<lparr>GetCaptureD3D11Device = None\<rparr>,
      m_compositor = None, m_rootVisual = None, m_webViewVisual = None, m_windowTarget = None,
      m_captureItem = None, m_framePool = None, m_session = None, m_d3dDevice = None,
      capture_calls = []\<rparr>"

definition ex_visual_tree :: VisualTree_env where
  "ex_visual_tree =
     \<lparr>Compositor_result = Some 83, CreateDesktopWindowTarget_result = Some 84,
      CreateRootVisual_result = Some 85, SetRoot_ok = True,
      CreateWebViewVisual_result = Some 86, AttachWebViewVisual_ok = True\<rparr>"

definition ex_graphics_capture :: GraphicsCapture_env where
  "ex_graphics_capture =
     \<lparr>Query_IDXGIDevice_capture_ok = True, CreateDirect3D11Device_result = Some 87,
      as_IDirect3DDevice_ok = True, IsWindow_result = True, get_activation_factory_ok = True,
      CreateForWindow_result = Some (88, \<lparr>size_Width = 800, size_Height = 600\<rparr>),
      FramePool_Create_result = Some 89, CreateCaptureSession_result = Some 90,
      StartCapture_ok = True\<rparr>"

section \<open>Notions used to state the properties\<close>

text \<open>
  The four steps of the explicit backend's initialization, the step a call belongs to,
  and the steps a list of calls went through, in order.
\<close>

datatype init_step = Step_InteropDevice | Step_CaptureDevice | Step_CompositionDevice | Step_Fence

fun step_of_call :: "api_call \<Rightarrow> init_step option" where
  "step_of_call (Call_D3D11On12CreateDevice d q) = Some Step_InteropDevice"
| "step_of_call Call_Query_ID3D11On12Device = Some Step_InteropDevice"
| "step_of_call Call_CreateDXGIFactory1 = Some Step_CaptureDevice"
| "step_of_call (Call_D3D11CreateDevice a) = Some Step_CaptureDevice"
| "step_of_call Call_Query_IDXGIDevice = Some Step_CompositionDevice"
| "step_of_call (Call_DCompositionCreateDevice d) = Some Step_CompositionDevice"
| "step_of_call Call_CreateFence = Some Step_Fence"
| "step_of_call Call_CreateEvent = Some Step_Fence"
| "step_of_call c = None"

definition steps_run :: "api_call list \<Rightarrow> init_step list" where
  "steps_run cs = remdups_adj (List.map_filter step_of_call cs)"

text \<open>A step succeeds when each call whose result it tests succeeds.\<close>

definition interop_ok :: "D3D12_init_env \<Rightarrow> bool" where
  "interop_ok env =
     (D3D11On12CreateDevice_result env \<noteq> None \<and> Query_ID3D11On12Device_result env \<noteq> None)"

definition capture_ok :: "D3D12_init_env \<Rightarrow> bool" where
  "capture_ok env =
     (CreateDXGIFactory1_result env \<noteq> None \<and> D3D11CreateDevice_result env \<noteq> None)"

definition composition_ok :: "D3D12_init_env \<Rightarrow> bool" where
  "composition_ok env =
     (Query_IDXGIDevice_result env \<noteq> None \<and> DCompositionCreateDevice_result env \<noteq> None)"

text \<open>The calls a backend issued after the first \<open>n\<close>.\<close>

definition calls_since :: "nat \<Rightarrow> api_call list \<Rightarrow> api_call list" where
  "calls_since n cs = drop n cs"

text \<open>
  The invariant of the wrap cache: a cached wrapper is stored under the pointer of the
  resource it wraps, and that resource is a live texture.  With the cache a map from
  pointers, this is at most one wrapper for each outstanding texture and none for a
  texture that is gone.
\<close>

definition wrap_cache_inv :: "RenderAPI_D3D12 \<Rightarrow> bool" where
  "wrap_cache_inv s =
     (\<forall>p w. m_wrappedResources s p = Some w \<longrightarrow> d3d12Resource w = p \<and> p \<in> dom (textures s))"

text \<open>
  A wrapper is stale for a resource when its D3D11 texture reports dimensions other than
  the resource's current descriptor.
\<close>

definition stale_for :: "WrappedResource \<Rightarrow> ID3D12Resource \<Rightarrow> bool" where
  "stale_for w r =
     (case as_texture2d (d3d11Resource w) of
        None \<Rightarrow> False
      | Some cachedDesc \<Rightarrow>
          ucast (Width cachedDesc) \<noteq> Width12 (GetDesc12 r) \<or>
          Height cachedDesc \<noteq> Height12 (GetDesc12 r))"

text \<open>
  The Y-flip, row by row.  On the legacy backend the copy for destination row \<open>y\<close> of
  a surface of height \<open>H\<close> is a \<open>CopySubresourceRegion\<close> to \<open>(0, y, 0)\<close> of the source
  box of rows \<open>H - 1 - y\<close> up to \<open>H - y\<close>.  On the explicit backend row \<open>k\<close> of the mapped
  staging texture starts \<open>k\<close> pitches after \<open>pData\<close>, and the update for destination row
  \<open>y\<close> is an \<open>UpdateSubresource\<close> of the box of rows \<open>y\<close> up to \<open>y + 1\<close> from mapped row
  \<open>H - 1 - y\<close>.  Rows are counted in \<open>nat\<close>, where nothing wraps.
\<close>

definition row_copy_D3D11 :: "handle \<Rightarrow> handle \<Rightarrow> UINT \<Rightarrow> UINT \<Rightarrow> nat \<Rightarrow> api_call" where
  "row_copy_D3D11 dst src W H y =
     Call_CopySubresourceRegion dst 0 0 (of_nat y) 0 src 0
       \<lparr>box_left = 0, box_right = W,
        box_top = of_nat (unat H - 1 - y), box_bottom = of_nat (unat H - y),
        box_front = 0, box_back = 1\<rparr>"

definition mapped_row :: "D3D11_MAPPED_SUBRESOURCE \<Rightarrow> nat \<Rightarrow> UINT64" where
  "mapped_row mapped k = pData mapped + of_nat (k * unat (RowPitch mapped))"

definition row_update_D3D12 ::
  "handle \<Rightarrow> UINT \<Rightarrow> UINT \<Rightarrow> D3D11_MAPPED_SUBRESOURCE \<Rightarrow> nat \<Rightarrow> api_call" where
  "row_update_D3D12 dst W H mapped y =
     Call_UpdateSubresource dst 0
       (Some \<lparr>box_left = 0, box_right = W, box_top = of_nat y, box_bottom = of_nat (Suc y),
              box_front = 0, box_back = 1\<rparr>)
       (mapped_row mapped (unat H - 1 - y)) (RowPitch mapped) 0"

text \<open>
  A platform for one copy on which every call succeeds, the backends with a texture two
  pixels wide and three rows high, and a captured frame of that size.
\<close>

definition ex_copy :: Copy_env where
  "ex_copy =
     \<lparr>CreateWrappedResource_result = Some 61, CreateStagingTexture_result = Some 62,
      Map_result = Some \<lparr>pData = 4096, RowPitch = 256\<rparr>\<rparr>"

definition ex_small11 :: RenderAPI_D3D11 where
  "ex_small11 = snd (snd (CreateSharedTexture_D3D11 (Some 50) ex_d3d11 2 3 (Some None)))"

definition ex_small12 :: RenderAPI_D3D12 where
  "ex_small12 = snd (snd (CreateSharedTexture_D3D12 (Some 50) ex_d3d12 2 3 (Some None)))"

definition ex_small_texture11 :: ID3D11Texture2D where
  "ex_small_texture11 = \<lparr>tex_ptr = 50, tex_desc = \<lparr>Width = 2, Height = 3\<rparr>\<rparr>"

definition ex_small_resource :: ID3D12Resource where
  "ex_small_resource = \<lparr>res_ptr = 50, res_width = 2, res_height = 3\<rparr>"

definition ex_small_captured :: ID3D11Texture2D where
  "ex_small_captured = \<lparr>tex_ptr = 70, tex_desc = \<lparr>Width = 2, Height = 3\<rparr>\<rparr>"

text \<open>
  The wrapped resources a backend has acquired, in order: the arguments of its
  \<open>AcquireWrappedResources\<close> calls.
\<close>

fun acquired :: "api_call list \<Rightarrow> handle list" where
  "acquired [] = []"
| "acquired (Call_AcquireWrappedResources h # cs) = h # acquired cs"
| "acquired (c # cs) = acquired cs"

text \<open>
  The texture at pointer 50 after the host has resized it to 1024 by 768 (the comment in
  \<open>GetOrCreateWrappedResource\<close>: ``Unity resized the texture''), and the backend that
  still caches for it the wrapper made at 800 by 600.
\<close>

definition ex_resized_resource :: ID3D12Resource where
  "ex_resized_resource = \<lparr>res_ptr = 50, res_width = 1024, res_height = 768\<rparr>"

definition ex_d3d12_stale :: RenderAPI_D3D12 where
  "ex_d3d12_stale = ex_d3d12_wrapped\<lparr>textures := [50 \<mapsto> GetDesc12 ex_resized_resource]\<rparr>"

text \<open>
  An initialization in which the capture device cannot be created
  (\<open>D3D11CreateDevice\<close> fails), and the backend it leaves behind.
\<close>

definition ex_init_capture_fails :: D3D12_init_env where
  "ex_init_capture_fails = ex_init\<lparr>D3D11CreateDevice_result := None\<rparr>"

definition ex_d3d12_partial :: RenderAPI_D3D12 where
  "ex_d3d12_partial =
     ProcessDeviceEvent_D3D12 ex_init_capture_fails ex_wait RenderAPI_D3D12_new
       kUnityGfxDeviceEventInitialize (Some ex_interfaces)"

section \<open>The examples, evaluated\<close>

lemmas init12_defs =
  ProcessDeviceEvent_D3D12_def InitializeD3D11On12_def InitializeCaptureDevice_def
  InitializeCompositionDevice_D3D12_def CreateFence_def

lemma ucast_widen_narrow: "(ucast (ucast (a :: 32 word) :: 64 word) :: 32 word) = a"
  by (simp add: ucast_up_ucast_id is_up)

lemma ucast_widen_eq: "((ucast (a :: 32 word) :: 64 word) = ucast (b :: 32 word)) = (a = b)"
  by (metis ucast_widen_narrow)

lemma ex_d3d11_eq:
  "ex_d3d11 =
     \<lparr>m_device = Some 1, m_context = Some 3, m_compositionDevice = Some 5,
      textures11 = Map.empty,
      calls11 = [Call_Query_IDXGIDevice, Call_DCompositionCreateDevice 4]\<rparr>"
  by (simp add: ex_d3d11_def ex_init11_def ex_interfaces_def RenderAPI_D3D11_new_def
        ProcessDeviceEvent_D3D11_def InitializeCompositionDevice_D3D11_def)

lemma ex_d3d12_eq:
  "ex_d3d12 =
     \<lparr>m_d3d12Device = Some 1, m_d3d12CommandQueue = Some 2, m_d3d11Device = Some 3,
      m_d3d11Context = Some 4, m_d3d11On12Device = Some 5, m_captureD3D11Device = Some 6,
      m_captureD3D11Context = Some 7, m_compositionDevice12 = Some 9, m_fence = Some 10,
      m_fenceEvent = Some 11, m_fenceValue = 0, m_wrappedResources = Map.empty,
      textures = Map.empty, os_events = {11},
      calls = [Call_D3D11On12CreateDevice 1 2, Call_Query_ID3D11On12Device,
               Call_CreateDXGIFactory1, Call_D3D11CreateDevice (Some 21),
               Call_Query_IDXGIDevice, Call_DCompositionCreateDevice 8,
               Call_CreateFence, Call_CreateEvent]\<rparr>"
  by (simp add: ex_d3d12_def ex_init_def ex_interfaces_def RenderAPI_D3D12_new_def init12_defs)

lemma ex_d3d11_tex_eq:
  "ex_d3d11_tex =
     ex_d3d11\<lparr>textures11 := [50 \<mapsto> \<lparr>Width = 800, Height = 600\<rparr>],
              calls11 := calls11 ex_d3d11 @ [Call_CreateTexture2D 800 600]\<rparr>"
  by (simp add: ex_d3d11_tex_def ex_d3d11_eq CreateSharedTexture_D3D11_def)

lemma ex_d3d12_tex_eq:
  "ex_d3d12_tex =
     ex_d3d12\<lparr>textures := [50 \<mapsto> \<lparr>Width12 = 800, Height12 = 600\<rparr>],
              calls := calls ex_d3d12 @ [Call_CreateCommittedResource 800 600]\<rparr>"
  by (simp add: ex_d3d12_tex_def ex_d3d12_eq CreateSharedTexture_D3D12_def)

lemma ex_d3d12_wrapped_eq:
  "ex_d3d12_wrapped =
     ex_d3d12_tex\<lparr>m_wrappedResources :=
                    [50 \<mapsto> \<lparr>d3d12Resource = 50,
                            d3d11Resource = \<lparr>res11_ptr = 60,
                               as_texture2d = Some \<lparr>Width = 800, Height = 600\<rparr>\<rparr>\<rparr>],
                  calls := calls ex_d3d12_tex @ [Call_CreateWrappedResource 50]\<rparr>"
  by (simp add: ex_d3d12_wrapped_def ex_d3d12_tex_eq ex_d3d12_eq ex_resource_def
        GetOrCreateWrappedResource_def WrapAndStore_def GetDesc12_def ucast_widen_narrow Let_def)

lemma ex_small11_eq:
  "ex_small11 =
     ex_d3d11\<lparr>textures11 := [50 \<mapsto> \<lparr>Width = 2, Height = 3\<rparr>],
              calls11 := calls11 ex_d3d11 @ [Call_CreateTexture2D 2 3]\<rparr>"
  by (simp add: ex_small11_def ex_d3d11_eq CreateSharedTexture_D3D11_def)

lemma ex_small12_eq:
  "ex_small12 =
     ex_d3d12\<lparr>textures := [50 \<mapsto> \<lparr>Width12 = 2, Height12 = 3\<rparr>],
              calls := calls ex_d3d12 @ [Call_CreateCommittedResource 2 3]\<rparr>"
  by (simp add: ex_small12_def ex_d3d12_eq CreateSharedTexture_D3D12_def)

lemma ex_d3d12_partial_eq:
  "ex_d3d12_partial =
     RenderAPI_D3D12_new
       \<lparr>m_d3d12Device := Some 1, m_d3d12CommandQueue := Some 2, m_d3d11Device := Some 3,
        m_d3d11Context := Some 4, m_d3d11On12Device := Some 5,
        calls := [Call_D3D11On12CreateDevice 1 2, Call_Query_ID3D11On12Device,
                  Call_CreateDXGIFactory1, Call_D3D11CreateDevice (Some 21)]\<rparr>"
  by (simp add: ex_d3d12_partial_def ex_init_capture_fails_def ex_init_def ex_interfaces_def
        RenderAPI_D3D12_new_def init12_defs)

lemma ex_d3d12_stale_eq:
  "ex_d3d12_stale =
     ex_d3d12_wrapped\<lparr>textures := [50 \<mapsto> \<lparr>Width12 = 1024, Height12 = 768\<rparr>]\<rparr>"
  by (simp add: ex_d3d12_stale_def ex_resized_resource_def GetDesc12_def)

section \<open>The row loops\<close>

lemma word_succ_unat: "(y :: 32 word) < m \<Longrightarrow> unat (y + 1) = Suc (unat y)"
proof -
  assume "y < m"
  then have "1 + y \<noteq> 0"
    by (metis add.commute add_neg_numeral_special(8) add_right_cancel word_order.extremum_strict)
  then show ?thesis
    by (simp add: unatSuc add.commute)
qed

lemma CopyRows_D3D11_eq:
  "CopyRows_D3D11 dst src sd dd y issued =
     issued @
     map (\<lambda>k. Call_CopySubresourceRegion dst 0 0 (of_nat k) 0 src 0
                \<lparr>box_left = 0, box_right = min (Width sd) (Width dd),
                 box_top = Height sd - 1 - of_nat k, box_bottom = Height sd - of_nat k,
                 box_front = 0, box_back = 1\<rparr>)
         [unat y ..< unat (min (Height sd) (Height dd))]"
proof (induction dst src sd dd y issued rule: CopyRows_D3D11.induct)
  case (1 dst src sd dd y issued)
  show ?case
  proof (cases "y < min (Height sd) (Height dd)")
    case True
    then have lt: "unat y < unat (min (Height sd) (Height dd))"
      by (simp add: word_less_nat_alt)
    from True have suc: "unat (y + 1) = Suc (unat y)"
      by (rule word_succ_unat)
    from lt have upt: "[unat y ..< unat (min (Height sd) (Height dd))] =
                       unat y # [unat (y + 1) ..< unat (min (Height sd) (Height dd))]"
      by (simp add: upt_conv_Cons suc)
    from True show ?thesis
      by (subst CopyRows_D3D11.simps) (simp add: "1.IH" upt)
  next
    case False
    then have "unat (min (Height sd) (Height dd)) \<le> unat y"
      by (simp add: word_less_nat_alt)
    then have "[unat y ..< unat (min (Height sd) (Height dd))] = []"
      by simp
    moreover have "CopyRows_D3D11 dst src sd dd y issued = issued"
      by (subst CopyRows_D3D11.simps) (simp only: False if_False)
    ultimately show ?thesis
      by (simp)
  qed
qed

lemma UpdateRows_D3D12_eq:
  "UpdateRows_D3D12 dst sd mapped minWidth minHeight y issued =
     issued @
     map (\<lambda>k. Call_UpdateSubresource dst 0
                (Some \<lparr>box_left = 0, box_right = minWidth, box_top = of_nat k,
                       box_bottom = of_nat k + 1, box_front = 0, box_back = 1\<rparr>)
                (pData mapped + ucast ((Height sd - 1 - of_nat k) * RowPitch mapped))
                (RowPitch mapped) 0)
         [unat y ..< unat minHeight]"
proof (induction dst sd mapped minWidth minHeight y issued rule: UpdateRows_D3D12.induct)
  case (1 dst sd mapped minWidth minHeight y issued)
  show ?case
  proof (cases "y < minHeight")
    case True
    then have lt: "unat y < unat minHeight"
      by (simp add: word_less_nat_alt)
    from True have suc: "unat (y + 1) = Suc (unat y)"
      by (rule word_succ_unat)
    from lt have upt: "[unat y ..< unat minHeight] = unat y # [unat (y + 1) ..< unat minHeight]"
      by (simp add: upt_conv_Cons suc)
    from True show ?thesis
      by (subst UpdateRows_D3D12.simps)
         (simp add: "1.IH" upt Let_def)
  next
    case False
    then have "unat minHeight \<le> unat y"
      by (simp add: word_less_nat_alt)
    then have "[unat y ..< unat minHeight] = []"
      by simp
    moreover have "UpdateRows_D3D12 dst sd mapped minWidth minHeight y issued = issued"
      by (subst UpdateRows_D3D12.simps) (simp only: False if_False)
    ultimately show ?thesis
      by (simp)
  qed
qed

lemma row_index_top: "k < unat (H :: 32 word) \<Longrightarrow> H - 1 - of_nat k = of_nat (unat H - 1 - k)"
  by (simp add: of_nat_diff)

lemma row_index_bottom: "k < unat (H :: 32 word) \<Longrightarrow> H - of_nat k = of_nat (unat H - k)"
  by (simp add: of_nat_diff)

lemma row_offset_no_wrap:
  assumes k: "k < unat (H :: 32 word)" and fits: "unat H * unat (P :: 32 word) \<le> 2 ^ 32"
  shows "(ucast ((of_nat k :: 32 word) * P) :: 64 word) = of_nat (k * unat P)"
proof -
  have "unat H < 2 ^ 32"
    using unsigned_less [of H, where 'a = nat] by simp
  with k have k32: "k < 2 ^ 32"
    by simp
  then have unat_k: "unat (of_nat k :: 32 word) = k"
    by (simp add: unat_of_nat)
  have kP: "k * unat P < 2 ^ 32"
  proof (cases "unat P = 0")
    case True
    then show ?thesis by simp
  next
    case False
    with k have "k * unat P < unat H * unat P"
      by simp
    then show ?thesis
      using fits by (rule less_le_trans)
  qed
  with unat_k have "unat (of_nat k :: 32 word) * unat P < 2 ^ LENGTH(32)"
    by simp
  then have "unat ((of_nat k :: 32 word) * P) = unat (of_nat k :: 32 word) * unat P"
    by (simp only: unat_mult_lem)
  with unat_k have "unat ((of_nat k :: 32 word) * P) = k * unat P"
    by simp
  then show ?thesis
    by (metis of_nat_unat)
qed

lemma CopyRows_D3D11_rows:
  "CopyRows_D3D11 dst src sd sd 0 issued =
     issued @ map (row_copy_D3D11 dst src (Width sd) (Height sd)) [0..<unat (Height sd)]"
proof -
  have "Call_CopySubresourceRegion dst 0 0 (of_nat k) 0 src 0
          \<lparr>box_left = 0, box_right = min (Width sd) (Width sd),
           box_top = Height sd - 1 - of_nat k, box_bottom = Height sd - of_nat k,
           box_front = 0, box_back = 1\<rparr> =
        row_copy_D3D11 dst src (Width sd) (Height sd) k" if "k < unat (Height sd)" for k
    unfolding row_copy_D3D11_def row_index_top [OF that] row_index_bottom [OF that]
    by simp
  then have "map (\<lambda>k. Call_CopySubresourceRegion dst 0 0 (of_nat k) 0 src 0
          \<lparr>box_left = 0, box_right = min (Width sd) (Width sd),
           box_top = Height sd - 1 - of_nat k, box_bottom = Height sd - of_nat k,
           box_front = 0, box_back = 1\<rparr>) [0..<unat (Height sd)] =
        map (row_copy_D3D11 dst src (Width sd) (Height sd)) [0..<unat (Height sd)]"
    by (intro map_cong) simp_all
  then show ?thesis
    unfolding CopyRows_D3D11_eq by simp
qed

lemma UpdateRows_D3D12_rows:
  assumes "unat (Height sd) * unat (RowPitch mapped) \<le> 2 ^ 32"
  shows "UpdateRows_D3D12 dst sd mapped W (Height sd) 0 issued =
           issued @ map (row_update_D3D12 dst W (Height sd) mapped) [0..<unat (Height sd)]"
proof -
  have "(pData mapped + ucast ((Height sd - 1 - of_nat k) * RowPitch mapped)) =
          mapped_row mapped (unat (Height sd) - 1 - k)" if "k < unat (Height sd)" for k
  proof -
    from that have "unat (Height sd) - 1 - k < unat (Height sd)"
      by simp
    from row_offset_no_wrap [OF this assms] that show ?thesis
      by (simp add: mapped_row_def row_index_top)
  qed
  then show ?thesis
    by (simp add: UpdateRows_D3D12_eq row_update_D3D12_def)
qed

section \<open>What the wrap cache returns\<close>

lemma GetOrCreateWrappedResource_Some:
  assumes "GetOrCreateWrappedResource res s r = (Some w, s')"
  shows "as_texture2d (d3d11Resource w) = Some \<lparr>Width = res_width r, Height = res_height r\<rparr>"
    and "m_wrappedResources s' (res_ptr r) = Some w"
  using assms
  by (auto simp: GetOrCreateWrappedResource_def WrapAndStore_def GetDesc12_def Let_def
        ucast_widen_narrow ucast_widen_eq split: option.splits if_splits)

lemma GetOrCreateWrappedResource_members:
  assumes "GetOrCreateWrappedResource res s r = (w, s')"
  shows "m_captureD3D11Device s' = m_captureD3D11Device s"
    and "m_captureD3D11Context s' = m_captureD3D11Context s"
    and "m_d3d11On12Device s' = m_d3d11On12Device s"
    and "m_d3d11Context s' = m_d3d11Context s"
    and "textures s' = textures s"
  using assms
  by (auto simp: GetOrCreateWrappedResource_def WrapAndStore_def Let_def
        split: option.splits if_splits)

section \<open>The invariant of the wrap cache, operation by operation\<close>

lemma wrap_cache_inv_new: "wrap_cache_inv RenderAPI_D3D12_new"
  by (simp add: wrap_cache_inv_def RenderAPI_D3D12_new_def)

lemma wrap_cache_inv_cong:
  "m_wrappedResources s' = m_wrappedResources s \<Longrightarrow> textures s' = textures s \<Longrightarrow>
   wrap_cache_inv s' = wrap_cache_inv s"
  by (simp add: wrap_cache_inv_def)

lemma wrap_cache_inv_Create:
  "wrap_cache_inv s \<Longrightarrow> wrap_cache_inv (snd (snd (CreateSharedTexture_D3D12 res s w h out)))"
  by (auto simp: wrap_cache_inv_def CreateSharedTexture_D3D12_def Let_def split: option.splits)

lemma wrap_cache_inv_Destroy:
  "wrap_cache_inv s \<Longrightarrow> wrap_cache_inv (DestroySharedTexture_D3D12 s ptr)"
  by (auto simp: wrap_cache_inv_def DestroySharedTexture_D3D12_def split: option.splits if_splits)

lemma WaitForGPU_keeps:
  "m_wrappedResources (WaitForGPU wenv s) = m_wrappedResources s"
  "textures (WaitForGPU wenv s) = textures s"
  by (simp_all add: WaitForGPU_def Let_def split: option.splits)

lemma wrap_cache_inv_WaitForGPU:
  "wrap_cache_inv (WaitForGPU wenv s) = wrap_cache_inv s"
  by (rule wrap_cache_inv_cong) (rule WaitForGPU_keeps)+

lemma wrap_cache_inv_Resize:
  "wrap_cache_inv s \<Longrightarrow>
   wrap_cache_inv (snd (snd (ResizeSharedTexture_D3D12 wenv res s ptr w h out)))"
  by (simp add: ResizeSharedTexture_D3D12_def wrap_cache_inv_Create wrap_cache_inv_Destroy
        wrap_cache_inv_WaitForGPU)

lemma wrap_cache_inv_GetOrCreate:
  "wrap_cache_inv s \<Longrightarrow> res_ptr r \<in> dom (textures s) \<Longrightarrow>
   wrap_cache_inv (snd (GetOrCreateWrappedResource res s r))"
  by (auto simp: wrap_cache_inv_def GetOrCreateWrappedResource_def WrapAndStore_def Let_def
      split: option.splits if_splits)

lemma wrap_cache_inv_Begin:
  "wrap_cache_inv s \<Longrightarrow> (\<forall>r. texturePtr = Some r \<longrightarrow> res_ptr r \<in> dom (textures s)) \<Longrightarrow>
   wrap_cache_inv (BeginRenderToTexture_D3D12 res s texturePtr)"
proof -
  assume inv: "wrap_cache_inv s" and live: "\<forall>r. texturePtr = Some r \<longrightarrow> res_ptr r \<in> dom (textures s)"
  show ?thesis
  proof (cases "m_d3d11On12Device s = None \<or> texturePtr = None")
    case True
    with inv show ?thesis
      by (auto simp: BeginRenderToTexture_D3D12_def)
  next
    case False
    then obtain r where r: "texturePtr = Some r" and on12: "m_d3d11On12Device s \<noteq> None"
      by auto
    obtain w s1 where g: "GetOrCreateWrappedResource res s r = (w, s1)"
      by fastforce
    from wrap_cache_inv_GetOrCreate [OF inv, of r res] live r g have "wrap_cache_inv s1"
      by simp
    then show ?thesis
      using r on12 g
      by (auto simp: BeginRenderToTexture_D3D12_def wrap_cache_inv_def split: option.splits)
  qed
qed

lemma EndRenderToTexture_keeps:
  assumes "EndRenderToTexture_D3D12 s ptr = Some s'"
  shows "m_wrappedResources s' = m_wrappedResources s" and "textures s' = textures s"
  using assms
  by (auto simp: EndRenderToTexture_D3D12_def split: option.splits if_splits)

lemma wrap_cache_inv_End:
  "wrap_cache_inv s \<Longrightarrow> EndRenderToTexture_D3D12 s ptr = Some s' \<Longrightarrow> wrap_cache_inv s'"
  using wrap_cache_inv_cong [OF EndRenderToTexture_keeps, of s ptr s'] by simp

lemma Copy_D3D12_keeps:
  assumes "CopyCapturedTextureToUnityTexture_D3D12 env s capturedTexture (Some r) flipY = Some s'"
  shows "m_wrappedResources s' = m_wrappedResources s \<or>
         (m_wrappedResources s' =
            m_wrappedResources (snd (GetOrCreateWrappedResource (CreateWrappedResource_result env) s r)))"
    and "textures s' = textures s"
  using assms GetOrCreateWrappedResource_members(5)
          [of "CreateWrappedResource_result env" s r]
  by (auto simp: CopyCapturedTextureToUnityTexture_D3D12_def Let_def
      split: option.splits if_splits prod.splits)

lemma wrap_cache_inv_Copy:
  assumes inv: "wrap_cache_inv s" and live: "res_ptr r \<in> dom (textures s)"
    and copy: "CopyCapturedTextureToUnityTexture_D3D12 env s capturedTexture (Some r) flipY = Some s'"
  shows "wrap_cache_inv s'"
proof -
  let ?g = "snd (GetOrCreateWrappedResource (CreateWrappedResource_result env) s r)"
  have tex: "textures ?g = textures s"
    using GetOrCreateWrappedResource_members(5) [of "CreateWrappedResource_result env" s r]
    by (cases "GetOrCreateWrappedResource (CreateWrappedResource_result env) s r") simp
  note keeps = Copy_D3D12_keeps [OF copy]
  from keeps(1) consider
      (same) "m_wrappedResources s' = m_wrappedResources s"
    | (wrapped) "m_wrappedResources s' = m_wrappedResources ?g"
    by blast
  then show ?thesis
  proof cases
    case same
    then have "wrap_cache_inv s' = wrap_cache_inv s"
      using keeps(2) by (rule wrap_cache_inv_cong)
    with inv show ?thesis
      by simp
  next
    case wrapped
    then have "wrap_cache_inv s' = wrap_cache_inv ?g"
      using keeps(2) tex by (intro wrap_cache_inv_cong) simp_all
    with wrap_cache_inv_GetOrCreate [OF inv live] show ?thesis
      by simp
  qed
qed

lemma wrap_cache_inv_Release:
  "wrap_cache_inv (ReleaseResources_D3D12 wenv s)"
  by (simp add: ReleaseResources_D3D12_def wrap_cache_inv_def Let_def split: option.splits)

lemma ProcessDeviceEvent_D3D12_keeps:
  assumes "eventType \<noteq> kUnityGfxDeviceEventShutdown" "eventType \<noteq> kUnityGfxDeviceEventBeforeReset"
  shows "m_wrappedResources (ProcessDeviceEvent_D3D12 env wenv s eventType interfaces)
           = m_wrappedResources s"
    and "textures (ProcessDeviceEvent_D3D12 env wenv s eventType interfaces) = textures s"
  using assms
  by (auto simp: init12_defs Let_def split: option.splits prod.splits)

lemma wrap_cache_inv_ProcessDeviceEvent:
  "wrap_cache_inv s \<Longrightarrow> wrap_cache_inv (ProcessDeviceEvent_D3D12 env wenv s eventType interfaces)"
proof (cases "eventType = kUnityGfxDeviceEventShutdown \<or> eventType = kUnityGfxDeviceEventBeforeReset")
  case True
  then show ?thesis
    by (auto simp: ProcessDeviceEvent_D3D12_def wrap_cache_inv_Release)
next
  case False
  assume "wrap_cache_inv s"
  with False wrap_cache_inv_cong [OF ProcessDeviceEvent_D3D12_keeps, of eventType env wenv s interfaces]
  show ?thesis
    by simp
qed

lemma GetOrCreateWrappedResource_never_stale:
  assumes "GetOrCreateWrappedResource res s r = (wrapper, s')"
  shows "(\<forall>w. wrapper = Some w \<longrightarrow> \<not> stale_for w r \<and> m_wrappedResources s' (res_ptr r) = Some w)"
    and "(\<forall>w. m_wrappedResources s' (res_ptr r) = Some w \<longrightarrow> \<not> stale_for w r)"
  using assms
  by (auto simp: GetOrCreateWrappedResource_def WrapAndStore_def stale_for_def GetDesc12_def
        Let_def ucast_widen_narrow ucast_widen_eq split: option.splits if_splits)

section \<open>Which wrapper an operation uses\<close>

lemma acquired_append [simp]: "acquired (xs @ ys) = acquired xs @ acquired ys"
  by (induction xs rule: acquired.induct) simp_all

lemma acquired_updates [simp]:
  "acquired (map (\<lambda>k. Call_UpdateSubresource (d k) (a k) (b k) (c k) (e k) (f k)) ks) = []"
  by (induction ks) simp_all

lemma acquired_UpdateRows [simp]:
  "acquired (UpdateRows_D3D12 dst sd mapped W H y issued) = acquired issued"
  by (simp add: UpdateRows_D3D12_eq)

lemma GetOrCreateWrappedResource_acquired:
  "GetOrCreateWrappedResource res s r = (w, s1) \<Longrightarrow> acquired (calls s1) = acquired (calls s)"
  by (auto simp: GetOrCreateWrappedResource_def WrapAndStore_def Let_def
      split: option.splits if_splits)

lemma Copy_D3D12_reaches_update:
  assumes size12: "res_width r = Width (tex_desc src)" "res_height r = Height (tex_desc src)"
    and wrapped: "GetOrCreateWrappedResource (CreateWrappedResource_result env) s r = (Some wd, s1)"
    and staging: "CreateStagingTexture_result env = Some stagingTexture"
    and mapped: "Map_result env = Some mapped"
    and members: "m_captureD3D11Device s \<noteq> None" "m_captureD3D11Context s \<noteq> None"
                 "m_d3d11On12Device s \<noteq> None" "m_d3d11Context s \<noteq> None"
  shows "\<exists>s'. CopyCapturedTextureToUnityTexture_D3D12 env s (Some src) (Some r) flipY = Some s' \<and>
              m_wrappedResources s' = m_wrappedResources s1 \<and>
              acquired (calls s') = acquired (calls s) @ [res11_ptr (d3d11Resource wd)]"
  using size12 wrapped staging mapped members
    GetOrCreateWrappedResource_members [OF wrapped]
    GetOrCreateWrappedResource_Some(1) [OF wrapped]
    GetOrCreateWrappedResource_acquired [OF wrapped]
  by (auto simp: CopyCapturedTextureToUnityTexture_D3D12_def GetDesc12_def ucast_widen_narrow
        Let_def)

lemma Copy_D3D12_acquires:
  assumes copy: "CopyCapturedTextureToUnityTexture_D3D12 env s capturedTexture (Some r) flipY = Some s'"
  shows "acquired (calls s') = acquired (calls s) \<or>
         (\<exists>wd. fst (GetOrCreateWrappedResource (CreateWrappedResource_result env) s r) = Some wd \<and>
               acquired (calls s') = acquired (calls s) @ [res11_ptr (d3d11Resource wd)])"
proof -
  obtain w s1 where g: "GetOrCreateWrappedResource (CreateWrappedResource_result env) s r = (w, s1)"
    by fastforce
  note a = GetOrCreateWrappedResource_acquired [OF g]
  from copy g a show ?thesis
    by (auto simp: CopyCapturedTextureToUnityTexture_D3D12_def Let_def
        split: option.splits if_splits)
qed

lemma BeginRenderToTexture_acquires:
  assumes on12: "m_d3d11On12Device s \<noteq> None"
  shows "case GetOrCreateWrappedResource wres s r of
           (None, s1) \<Rightarrow> BeginRenderToTexture_D3D12 wres s (Some r) = s1
         | (Some wd, s1) \<Rightarrow>
             \<not> stale_for wd r \<and> m_wrappedResources s1 (res_ptr r) = Some wd \<and>
             BeginRenderToTexture_D3D12 wres s (Some r) =
               s1\<lparr>calls := calls s1 @
                      [Call_AcquireWrappedResources (res11_ptr (d3d11Resource wd))]\<rparr>"
proof -
  obtain w s1 where g: "GetOrCreateWrappedResource wres s r = (w, s1)"
    by fastforce
  from GetOrCreateWrappedResource_never_stale(1) [OF g] on12 g show ?thesis
    by (auto simp: BeginRenderToTexture_D3D12_def split: option.splits)
qed

lemma BeginRenderToTexture_stale:
  assumes on12: "m_d3d11On12Device s \<noteq> None"
    and cached: "m_wrappedResources s (res_ptr r) = Some cached"
    and stale: "stale_for cached r"
  shows "BeginRenderToTexture_D3D12 wres s (Some r) =
           (case wres of
              None \<Rightarrow>
                s\<lparr>m_wrappedResources := (m_wrappedResources s)(res_ptr r := None),
                  calls := calls s @ [Call_CreateWrappedResource (res_ptr r)]\<rparr>
            | Some d3d11 \<Rightarrow>
                s\<lparr>m_wrappedResources :=
                    (m_wrappedResources s)
                      (res_ptr r \<mapsto>
                         \<lparr>d3d12Resource = res_ptr r,
                          d3d11Resource =
                            \<lparr>res11_ptr = d3d11,
                             as_texture2d =
                               Some \<lparr>Width = res_width r, Height = res_height r\<rparr>\<rparr>\<rparr>),
                  calls := calls s @
                    [Call_CreateWrappedResource (res_ptr r),
                     Call_AcquireWrappedResources d3d11]\<rparr>)"
proof -
  from stale obtain cachedDesc where
    desc: "as_texture2d (d3d11Resource cached) = Some cachedDesc" and
    differs: "ucast (Width cachedDesc) \<noteq> Width12 (GetDesc12 r) \<or>
              Height cachedDesc \<noteq> Height12 (GetDesc12 r)"
    by (auto simp: stale_for_def split: option.splits)
  have rebuilt:
    "GetOrCreateWrappedResource wres s r =
       WrapAndStore wres (s\<lparr>m_wrappedResources := (m_wrappedResources s)(res_ptr r := None)\<rparr>) r"
    using cached desc differs by (simp add: GetOrCreateWrappedResource_def Let_def)
  have wrapped:
    "GetOrCreateWrappedResource wres s r =
       (case wres of
          None \<Rightarrow>
            (None,
             s\<lparr>m_wrappedResources := (m_wrappedResources s)(res_ptr r := None),
               calls := calls s @ [Call_CreateWrappedResource (res_ptr r)]\<rparr>)
        | Some d3d11 \<Rightarrow>
            (Some \<lparr>d3d12Resource = res_ptr r,
                   d3d11Resource =
                     \<lparr>res11_ptr = d3d11,
                      as_texture2d = Some \<lparr>Width = res_width r, Height = res_height r\<rparr>\<rparr>\<rparr>,
             s\<lparr>m_wrappedResources :=
                 (m_wrappedResources s)
                   (res_ptr r \<mapsto>
                      \<lparr>d3d12Resource = res_ptr r,
                       d3d11Resource =
                         \<lparr>res11_ptr = d3d11,
                          as_texture2d =
                            Some \<lparr>Width = res_width r, Height = res_height r\<rparr>\<rparr>\<rparr>),
               calls := calls s @ [Call_CreateWrappedResource (res_ptr r)]\<rparr>))"
    unfolding rebuilt using on12
    by (cases wres) (auto simp: WrapAndStore_def GetDesc12_def ucast_widen_narrow Let_def)
  show ?thesis
    using on12 wrapped
    by (cases wres) (auto simp: BeginRenderToTexture_D3D12_def)
qed

lemma EndRenderToTexture_releases:
  "EndRenderToTexture_D3D12 s None = Some s"
  "m_d3d11On12Device s = None \<Longrightarrow> EndRenderToTexture_D3D12 s ptr = Some s"
  "m_wrappedResources s p = None \<Longrightarrow> EndRenderToTexture_D3D12 s (Some p) = Some s"
  "m_d3d11On12Device s \<noteq> None \<Longrightarrow> m_d3d11Context s \<noteq> None \<Longrightarrow>
   m_wrappedResources s p = Some wd \<Longrightarrow>
   EndRenderToTexture_D3D12 s (Some p) =
     Some (s\<lparr>calls := calls s @
               [Call_ReleaseWrappedResources (res11_ptr (d3d11Resource wd)), Call_Flush]\<rparr>)"
  by (auto simp: EndRenderToTexture_D3D12_def split: option.splits)

lemma GetOrCreateWrappedResource_wraps:
  assumes "m_d3d11On12Device s \<noteq> None" and "wres \<noteq> None"
  shows "\<exists>wd s1. GetOrCreateWrappedResource wres s r = (Some wd, s1)"
  using assms
  by (auto simp: GetOrCreateWrappedResource_def WrapAndStore_def Let_def
      split: option.splits if_splits)

section \<open>Creating a shared texture\<close>

text \<open>
  C10.  Called with a null output pointer, \<open>CreateSharedTexture\<close> of either backend
  returns \<open>ErrorNotInitialized\<close>, whatever the width and the height and whether or not a
  device is bound; it allocates nothing: the backend, its textures and the calls issued
  are as before.
\<close>

theorem CreateSharedTexture_null_out:
  "CreateSharedTexture_D3D11 r11 s11 w h None = (ErrorNotInitialized, None, s11) \<and>
   CreateSharedTexture_D3D12 r12 s12 w h None = (ErrorNotInitialized, None, s12)"
  by (simp add: CreateSharedTexture_D3D11_def CreateSharedTexture_D3D12_def)

text \<open>
  C8, as stated, fails: with a device bound and an allocation that would succeed, a call
  with a null output pointer returns \<open>ErrorNotInitialized\<close>, not success (both backends).
\<close>

theorem CreateSharedTexture_otherwise_counterexample:
  "m_device ex_d3d11 \<noteq> None \<and> (Some 50 :: handle option) \<noteq> None \<and>
   fst (CreateSharedTexture_D3D11 (Some 50) ex_d3d11 800 600 None) = ErrorNotInitialized \<and>
   m_d3d12Device ex_d3d12 \<noteq> None \<and>
   fst (CreateSharedTexture_D3D12 (Some 50) ex_d3d12 800 600 None) = ErrorNotInitialized"
  by (simp add: ex_d3d11_eq ex_d3d12_eq CreateSharedTexture_D3D11_def CreateSharedTexture_D3D12_def)

text \<open>
  C8, amended.  For every width and height, \<open>CreateSharedTexture\<close> of either backend
  returns \<open>ErrorNotInitialized\<close> when no device is bound or the output pointer is null;
  otherwise \<open>ErrorTextureCreationFailed\<close> when the allocation fails; otherwise \<open>Success\<close>,
  and on \<open>Success\<close> the output cell holds a non-null handle.
\<close>

theorem CreateSharedTexture_results:
  "fst (CreateSharedTexture_D3D11 r11 s11 w h out) =
     (if m_device s11 = None \<or> out = None then ErrorNotInitialized
      else if r11 = None then ErrorTextureCreationFailed else Success) \<and>
   (fst (CreateSharedTexture_D3D11 r11 s11 w h out) = Success \<longrightarrow>
      (\<exists>t. fst (snd (CreateSharedTexture_D3D11 r11 s11 w h out)) = Some (Some t))) \<and>
   fst (CreateSharedTexture_D3D12 r12 s12 w h out) =
     (if m_d3d12Device s12 = None \<or> out = None then ErrorNotInitialized
      else if r12 = None then ErrorTextureCreationFailed else Success) \<and>
   (fst (CreateSharedTexture_D3D12 r12 s12 w h out) = Success \<longrightarrow>
      (\<exists>t. fst (snd (CreateSharedTexture_D3D12 r12 s12 w h out)) = Some (Some t)))"
  by (auto simp: CreateSharedTexture_D3D11_def CreateSharedTexture_D3D12_def Let_def
      split: option.splits)

theorem CreateSharedTexture_results_witness:
  "fst (CreateSharedTexture_D3D11 (Some 50) ex_d3d11 800 600 (Some None)) = Success \<and>
   (\<exists>t. fst (snd (CreateSharedTexture_D3D11 (Some 50) ex_d3d11 800 600 (Some None)))
          = Some (Some t)) \<and>
   fst (CreateSharedTexture_D3D12 (Some 50) ex_d3d12 800 600 (Some None)) = Success \<and>
   (\<exists>t. fst (snd (CreateSharedTexture_D3D12 (Some 50) ex_d3d12 800 600 (Some None)))
          = Some (Some t))"
  using CreateSharedTexture_results
    [of "Some 50" ex_d3d11 800 600 "Some None" "Some 50" ex_d3d12]
  by (simp add: ex_d3d11_eq ex_d3d12_eq)

section \<open>Copying a captured frame: the dimension check\<close>

text \<open>
  C1.  When the width or the height of the captured texture differs from that of the
  destination, \<open>CopyCapturedTextureToUnityTexture\<close> of either backend returns normally
  with the backend exactly as it was: no call has been issued to a device or a context
  (the list of calls is part of the state), and the wrap cache of the explicit backend is
  untouched.  The legacy backend compares the two \<open>D3D11_TEXTURE2D_DESC\<close>; the explicit
  backend compares the captured descriptor with the D3D12 descriptor of the destination
  before it looks for a wrapper.
\<close>

theorem Copy_dimension_mismatch_skipped:
  "(Width (tex_desc src) \<noteq> Width (tex_desc dst11) \<or>
    Height (tex_desc src) \<noteq> Height (tex_desc dst11)
      \<longrightarrow> CopyCapturedTextureToUnityTexture_D3D11 s11 (Some src) (Some dst11) flipY = s11) \<and>
   (Width (tex_desc src) \<noteq> res_width dst12 \<or> Height (tex_desc src) \<noteq> res_height dst12
      \<longrightarrow> CopyCapturedTextureToUnityTexture_D3D12 env s12 (Some src) (Some dst12) flipY
            = Some s12)"
  by (simp add: CopyCapturedTextureToUnityTexture_D3D11_def
        CopyCapturedTextureToUnityTexture_D3D12_def GetDesc12_def ucast_widen_narrow Let_def)

theorem Copy_dimension_mismatch_skipped_witness:
  "CopyCapturedTextureToUnityTexture_D3D11 ex_d3d11_tex (Some ex_captured)
     (Some \<lparr>tex_ptr = 50, tex_desc = \<lparr>Width = 1024, Height = 768\<rparr>\<rparr>) True = ex_d3d11_tex \<and>
   CopyCapturedTextureToUnityTexture_D3D12 ex_copy ex_d3d12_wrapped (Some ex_captured)
     (Some \<lparr>res_ptr = 50, res_width = 800, res_height = 768\<rparr>) True = Some ex_d3d12_wrapped"
  using Copy_dimension_mismatch_skipped
    [of ex_captured "\<lparr>tex_ptr = 50, tex_desc = \<lparr>Width = 1024, Height = 768\<rparr>\<rparr>"
        ex_d3d11_tex True "\<lparr>res_ptr = 50, res_width = 800, res_height = 768\<rparr>"
        ex_copy ex_d3d12_wrapped]
  by (simp add: ex_captured_def)

section \<open>Resizing a shared texture\<close>

text \<open>
  C3, as stated, fails, in two ways.  Called with a null output pointer,
  \<open>ResizeSharedTexture\<close> of either backend returns \<open>ErrorInvalidHandle\<close> before it
  destroys anything, so the call does not succeed and the old handle still denotes a live
  texture.  And nothing makes the new texture differ from the old one: when the device
  gives the new texture the address it has just got back, a resize to the same size
  succeeds with the old handle as its result, and that handle denotes a live texture.
\<close>

theorem ResizeSharedTexture_old_handle_counterexample:
  "textures11 ex_d3d11_tex 50 \<noteq> None \<and>
   fst (ResizeSharedTexture_D3D11 (Some 51) ex_d3d11_tex (Some 50) 1024 768 None) \<noteq> Success \<and>
   textures11 (snd (snd (ResizeSharedTexture_D3D11 (Some 51) ex_d3d11_tex (Some 50) 1024 768 None))) 50
     \<noteq> None \<and>
   textures ex_d3d12_tex 50 \<noteq> None \<and>
   fst (ResizeSharedTexture_D3D12 ex_wait (Some 51) ex_d3d12_tex (Some 50) 1024 768 None) \<noteq> Success \<and>
   textures (snd (snd (ResizeSharedTexture_D3D12 ex_wait (Some 51) ex_d3d12_tex (Some 50) 1024 768 None))) 50
     \<noteq> None \<and>
   ResizeSharedTexture_D3D11 (Some 50) ex_d3d11_tex (Some 50) 800 600 (Some (Some 50)) =
     (Success, Some (Some 50),
      ex_d3d11_tex\<lparr>calls11 := calls11 ex_d3d11_tex @ [Call_Release 50, Call_CreateTexture2D 800 600]\<rparr>) \<and>
   fst (ResizeSharedTexture_D3D12 ex_wait (Some 50) ex_d3d12_tex (Some 50) 800 600 (Some (Some 50)))
     = Success \<and>
   fst (snd (ResizeSharedTexture_D3D12 ex_wait (Some 50) ex_d3d12_tex (Some 50) 800 600
               (Some (Some 50)))) = Some (Some 50) \<and>
   textures (snd (snd (ResizeSharedTexture_D3D12 ex_wait (Some 50) ex_d3d12_tex (Some 50) 800 600
                         (Some (Some 50))))) 50 \<noteq> None"
  by (simp add: ResizeSharedTexture_D3D11_def ResizeSharedTexture_D3D12_def ex_d3d11_tex_eq
        ex_d3d12_tex_eq ex_d3d11_eq ex_d3d12_eq ex_wait_def CreateSharedTexture_D3D11_def
        CreateSharedTexture_D3D12_def DestroySharedTexture_D3D11_def DestroySharedTexture_D3D12_def
        WaitForGPU_def Let_def)

text \<open>
  C3, amended.  For every handle, width and height (equal to the old ones or not):
  with a null output pointer \<open>ResizeSharedTexture\<close> returns \<open>ErrorInvalidHandle\<close> and
  changes nothing; with a null handle and an output pointer it is \<open>CreateSharedTexture\<close>
  (after the wait for the GPU, on the explicit backend).  With a handle and an output
  pointer it releases the old texture and then calls \<open>CreateSharedTexture\<close>, exactly:
  the result is \<open>ErrorNotInitialized\<close> without a device, else
  \<open>ErrorTextureCreationFailed\<close> when the device creates no texture, else \<open>Success\<close>;
  the output cell is written on \<open>Success\<close> only, with the handle the device returned; the
  old handle leaves the live textures, and on \<open>Success\<close> the returned handle enters them
  with the new dimensions; the calls issued are the release followed, when there is a
  device, by one creation; on the explicit backend the wrapper cached for the old handle
  is erased.  So after the call the old handle is live exactly when the call succeeded
  and the device returned that same handle.
\<close>

theorem ResizeSharedTexture_destroy_then_create:
  "ResizeSharedTexture_D3D11 r11 s11 old w h None = (ErrorInvalidHandle, None, s11) \<and>
   ResizeSharedTexture_D3D12 wenv r12 s12 old w h None = (ErrorInvalidHandle, None, s12) \<and>
   ResizeSharedTexture_D3D11 r11 s11 None w h (Some cell) =
     CreateSharedTexture_D3D11 r11 s11 w h (Some cell) \<and>
   ResizeSharedTexture_D3D12 wenv r12 s12 None w h (Some cell) =
     CreateSharedTexture_D3D12 r12 (WaitForGPU wenv s12) w h (Some cell) \<and>
   (case ResizeSharedTexture_D3D11 r11 s11 (Some p) w h (Some cell) of
      (result, out', s') \<Rightarrow>
        result = (if m_device s11 = None then ErrorNotInitialized
                  else if r11 = None then ErrorTextureCreationFailed else Success) \<and>
        out' = (if result = Success then Some r11 else Some cell) \<and>
        s' = s11
          \<lparr>textures11 :=
             (if result = Success
              then ((textures11 s11)(p := None))(the r11 \<mapsto> \<lparr>Width = w, Height = h\<rparr>)
              else (textures11 s11)(p := None)),
           calls11 :=
             calls11 s11 @ Call_Release p #
             (if m_device s11 = None then [] else [Call_CreateTexture2D w h])\<rparr> \<and>
        (textures11 s' p = None) = (\<not> (result = Success \<and> r11 = Some p))) \<and>
   (case ResizeSharedTexture_D3D12 wenv r12 s12 (Some p) w h (Some cell) of
      (result, out', s') \<Rightarrow>
        result = (if m_d3d12Device s12 = None then ErrorNotInitialized
                  else if r12 = None then ErrorTextureCreationFailed else Success) \<and>
        out' = (if result = Success then Some r12 else Some cell) \<and>
        s' = (WaitForGPU wenv s12)
          \<lparr>m_wrappedResources := (m_wrappedResources s12)(p := None),
           textures :=
             (if result = Success
              then ((textures s12)(p := None))
                     (the r12 \<mapsto> \<lparr>Width12 = ucast w, Height12 = h\<rparr>)
              else (textures s12)(p := None)),
           calls :=
             calls (WaitForGPU wenv s12) @ Call_Release p #
             (if m_d3d12Device s12 = None then []
              else [Call_CreateCommittedResource (ucast w) h])\<rparr> \<and>
        (textures s' p = None) = (\<not> (result = Success \<and> r12 = Some p)))"
proof -
  have keep: "m_d3d12Device (WaitForGPU wenv s12) = m_d3d12Device s12"
    "m_wrappedResources (WaitForGPU wenv s12) = m_wrappedResources s12"
    "textures (WaitForGPU wenv s12) = textures s12"
    by (simp_all add: WaitForGPU_def Let_def split: option.splits)
  have d11: "case ResizeSharedTexture_D3D11 r11 s11 (Some p) w h (Some cell) of
      (result, out', s') \<Rightarrow>
        result = (if m_device s11 = None then ErrorNotInitialized
                  else if r11 = None then ErrorTextureCreationFailed else Success) \<and>
        out' = (if result = Success then Some r11 else Some cell) \<and>
        s' = s11
          \<lparr>textures11 :=
             (if result = Success
              then ((textures11 s11)(p := None))(the r11 \<mapsto> \<lparr>Width = w, Height = h\<rparr>)
              else (textures11 s11)(p := None)),
           calls11 :=
             calls11 s11 @ Call_Release p #
             (if m_device s11 = None then [] else [Call_CreateTexture2D w h])\<rparr> \<and>
        (textures11 s' p = None) = (\<not> (result = Success \<and> r11 = Some p))"
    by (cases r11)
       (auto simp: ResizeSharedTexture_D3D11_def CreateSharedTexture_D3D11_def
          DestroySharedTexture_D3D11_def Let_def)
  have d12: "case ResizeSharedTexture_D3D12 wenv r12 s12 (Some p) w h (Some cell) of
      (result, out', s') \<Rightarrow>
        result = (if m_d3d12Device s12 = None then ErrorNotInitialized
                  else if r12 = None then ErrorTextureCreationFailed else Success) \<and>
        out' = (if result = Success then Some r12 else Some cell) \<and>
        s' = (WaitForGPU wenv s12)
          \<lparr>m_wrappedResources := (m_wrappedResources s12)(p := None),
           textures :=
             (if result = Success
              then ((textures s12)(p := None))
                     (the r12 \<mapsto> \<lparr>Width12 = ucast w, Height12 = h\<rparr>)
              else (textures s12)(p := None)),
           calls :=
             calls (WaitForGPU wenv s12) @ Call_Release p #
             (if m_d3d12Device s12 = None then []
              else [Call_CreateCommittedResource (ucast w) h])\<rparr> \<and>
        (textures s' p = None) = (\<not> (result = Success \<and> r12 = Some p))"
    by (cases r12)
       (auto simp: ResizeSharedTexture_D3D12_def CreateSharedTexture_D3D12_def
          DestroySharedTexture_D3D12_def Let_def keep)
  have nulls: "ResizeSharedTexture_D3D11 r11 s11 old w h None = (ErrorInvalidHandle, None, s11)"
    "ResizeSharedTexture_D3D12 wenv r12 s12 old w h None = (ErrorInvalidHandle, None, s12)"
    "ResizeSharedTexture_D3D11 r11 s11 None w h (Some cell) =
       CreateSharedTexture_D3D11 r11 s11 w h (Some cell)"
    "ResizeSharedTexture_D3D12 wenv r12 s12 None w h (Some cell) =
       CreateSharedTexture_D3D12 r12 (WaitForGPU wenv s12) w h (Some cell)"
    by (simp_all add: ResizeSharedTexture_D3D11_def ResizeSharedTexture_D3D12_def
          DestroySharedTexture_D3D11_def DestroySharedTexture_D3D12_def)
  show ?thesis
    by (intro conjI) (fact nulls d11 d12)+
qed

theorem ResizeSharedTexture_destroy_then_create_witness:
  "(\<exists>s'. ResizeSharedTexture_D3D11 (Some 51) ex_d3d11_tex (Some 50) 800 600 (Some (Some 50))
          = (Success, Some (Some 51), s') \<and>
         textures11 s' 51 = Some \<lparr>Width = 800, Height = 600\<rparr> \<and> textures11 s' 50 = None \<and>
         calls11 s' = calls11 ex_d3d11_tex @ [Call_Release 50, Call_CreateTexture2D 800 600]) \<and>
   (\<exists>s'. ResizeSharedTexture_D3D11 None ex_d3d11_tex (Some 50) 800 600 (Some (Some 50))
          = (ErrorTextureCreationFailed, Some (Some 50), s') \<and> textures11 s' 50 = None) \<and>
   (\<exists>s'. ResizeSharedTexture_D3D12 ex_wait (Some 51) ex_d3d12_wrapped (Some 50) 800 600 (Some (Some 50))
          = (Success, Some (Some 51), s') \<and>
         textures s' 51 = Some \<lparr>Width12 = 800, Height12 = 600\<rparr> \<and> textures s' 50 = None \<and>
         m_wrappedResources s' 50 = None) \<and>
   (\<exists>s'. ResizeSharedTexture_D3D12 ex_wait None ex_d3d12_wrapped (Some 50) 800 600 (Some (Some 50))
          = (ErrorTextureCreationFailed, Some (Some 50), s') \<and> textures s' 50 = None)"
proof -
  have dev: "m_device ex_d3d11_tex \<noteq> None" "m_d3d12Device ex_d3d12_wrapped \<noteq> None"
    by (simp_all add: ex_d3d11_tex_eq ex_d3d11_eq ex_d3d12_wrapped_eq ex_d3d12_tex_eq ex_d3d12_eq)
  note created = ResizeSharedTexture_destroy_then_create
     [where ?r11.0 = "Some 51" and ?s11.0 = ex_d3d11_tex and w = 800 and h = 600
        and wenv = ex_wait and ?r12.0 = "Some 51" and ?s12.0 = ex_d3d12_wrapped and p = 50
        and cell = "Some 50" and old = None]
  note failed = ResizeSharedTexture_destroy_then_create
     [where ?r11.0 = None and ?s11.0 = ex_d3d11_tex and w = 800 and h = 600
        and wenv = ex_wait and ?r12.0 = None and ?s12.0 = ex_d3d12_wrapped and p = 50
        and cell = "Some 50" and old = None]
  from created dev have a: "\<exists>s'. ResizeSharedTexture_D3D11 (Some 51) ex_d3d11_tex (Some 50) 800 600 (Some (Some 50))
          = (Success, Some (Some 51), s') \<and>
         textures11 s' 51 = Some \<lparr>Width = 800, Height = 600\<rparr> \<and> textures11 s' 50 = None \<and>
         calls11 s' = calls11 ex_d3d11_tex @ [Call_Release 50, Call_CreateTexture2D 800 600]"
    by (auto simp: ucast_widen_narrow split: prod.splits)
  from failed dev have b: "\<exists>s'. ResizeSharedTexture_D3D11 None ex_d3d11_tex (Some 50) 800 600 (Some (Some 50))
          = (ErrorTextureCreationFailed, Some (Some 50), s') \<and> textures11 s' 50 = None"
    by (auto simp: ucast_widen_narrow split: prod.splits)
  from created dev have c: "\<exists>s'. ResizeSharedTexture_D3D12 ex_wait (Some 51) ex_d3d12_wrapped (Some 50) 800 600 (Some (Some 50))
          = (Success, Some (Some 51), s') \<and>
         textures s' 51 = Some \<lparr>Width12 = 800, Height12 = 600\<rparr> \<and> textures s' 50 = None \<and>
         m_wrappedResources s' 50 = None"
    by (auto simp: ucast_widen_narrow split: prod.splits)
  from failed dev have d: "\<exists>s'. ResizeSharedTexture_D3D12 ex_wait None ex_d3d12_wrapped (Some 50) 800 600 (Some (Some 50))
          = (ErrorTextureCreationFailed, Some (Some 50), s') \<and> textures s' 50 = None"
    by (auto simp: ucast_widen_narrow split: prod.splits)
  from a b c d show ?thesis
    by (intro conjI)
qed

section \<open>The wrap cache: reuse and rebuild\<close>

text \<open>
  C2, as stated, fails: a cached wrapper whose dimensions differ from the current
  descriptor is discarded, but when \<open>CreateWrappedResource\<close> fails the function returns
  null and nothing is stored in its place.
\<close>

theorem GetOrCreateWrappedResource_rebuild_counterexample:
  "m_wrappedResources ex_d3d12_wrapped 50 \<noteq> None \<and>
   stale_for (the (m_wrappedResources ex_d3d12_wrapped 50))
     \<lparr>res_ptr = 50, res_width = 1024, res_height = 768\<rparr> \<and>
   fst (GetOrCreateWrappedResource None ex_d3d12_wrapped
          \<lparr>res_ptr = 50, res_width = 1024, res_height = 768\<rparr>) = None \<and>
   m_wrappedResources
     (snd (GetOrCreateWrappedResource None ex_d3d12_wrapped
             \<lparr>res_ptr = 50, res_width = 1024, res_height = 768\<rparr>)) 50 = None"
  by (simp add: ex_d3d12_wrapped_eq ex_d3d12_tex_eq ex_d3d12_eq stale_for_def GetDesc12_def
        GetOrCreateWrappedResource_def WrapAndStore_def Let_def)

text \<open>
  C2, amended.  For every resource that has a wrapper in the cache, the wrapper being a
  2D texture: if its dimensions equal those of the resource's current descriptor,
  \<open>GetOrCreateWrappedResource\<close> returns that very wrapper and changes nothing, and so
  does a second call; if they differ, the cached wrapper is discarded and either the
  interop device is present and \<open>CreateWrappedResource\<close> succeeds, and then a newly built
  wrapper of the current dimensions is returned and stored under the resource's pointer,
  or null is returned and the cache holds no wrapper for the resource.
\<close>

theorem GetOrCreateWrappedResource_cached:
  assumes cached: "m_wrappedResources s (res_ptr r) = Some cached"
    and desc: "as_texture2d (d3d11Resource cached) = Some cachedDesc"
  shows "(Width cachedDesc = res_width r \<and> Height cachedDesc = res_height r \<longrightarrow>
            GetOrCreateWrappedResource res s r = (Some cached, s) \<and>
            GetOrCreateWrappedResource res' (snd (GetOrCreateWrappedResource res s r)) r
              = (Some cached, s)) \<and>
         (Width cachedDesc \<noteq> res_width r \<or> Height cachedDesc \<noteq> res_height r \<longrightarrow>
            (case GetOrCreateWrappedResource res s r of
               (wrapper, s') \<Rightarrow>
                 (case wrapper of
                    None \<Rightarrow>
                      (m_d3d11On12Device s = None \<or> res = None) \<and>
                      m_wrappedResources s' = (m_wrappedResources s)(res_ptr r := None)
                  | Some built \<Rightarrow>
                      (\<exists>d3d11. res = Some d3d11 \<and> m_d3d11On12Device s \<noteq> None \<and>
                         built = \<lparr>d3d12Resource = res_ptr r,
                                  d3d11Resource =
                                    \<lparr>res11_ptr = d3d11,
                                     as_texture2d =
                                       Some \<lparr>Width = res_width r, Height = res_height r\<rparr>\<rparr>\<rparr>) \<and>
                      m_wrappedResources s' = (m_wrappedResources s)(res_ptr r \<mapsto> built))))"
  using assms
  by (auto simp: GetOrCreateWrappedResource_def WrapAndStore_def GetDesc12_def Let_def
        ucast_widen_narrow ucast_widen_eq split: option.splits)

theorem GetOrCreateWrappedResource_cached_witness:
  "GetOrCreateWrappedResource (Some 61) ex_d3d12_wrapped ex_resource
     = (m_wrappedResources ex_d3d12_wrapped 50, ex_d3d12_wrapped) \<and>
   m_wrappedResources ex_d3d12_wrapped 50 \<noteq> None \<and>
   fst (GetOrCreateWrappedResource (Some 61) ex_d3d12_wrapped
          \<lparr>res_ptr = 50, res_width = 1024, res_height = 768\<rparr>)
     = Some \<lparr>d3d12Resource = 50,
             d3d11Resource = \<lparr>res11_ptr = 61,
                               as_texture2d = Some \<lparr>Width = 1024, Height = 768\<rparr>\<rparr>\<rparr>"
proof -
  let ?cached = "\<lparr>d3d12Resource = 50,
                   d3d11Resource = \<lparr>res11_ptr = 60,
                                     as_texture2d = Some \<lparr>Width = 800, Height = 600\<rparr>\<rparr>\<rparr>"
  have c: "m_wrappedResources ex_d3d12_wrapped (res_ptr ex_resource) = Some ?cached"
    by (simp add: ex_d3d12_wrapped_eq ex_resource_def)
  have c': "m_wrappedResources ex_d3d12_wrapped
              (res_ptr \<lparr>res_ptr = 50, res_width = 1024, res_height = 768\<rparr>) = Some ?cached"
    by (simp add: ex_d3d12_wrapped_eq)
  have d: "as_texture2d (d3d11Resource ?cached) = Some \<lparr>Width = 800, Height = 600\<rparr>"
    by simp
  from GetOrCreateWrappedResource_cached [OF c d, of "Some 61" "Some 61"]
       GetOrCreateWrappedResource_cached [OF c' d, of "Some 61" "Some 61"] c
  show ?thesis
    by (simp add: ex_resource_def ex_d3d12_wrapped_eq ex_d3d12_tex_eq ex_d3d12_eq
          GetOrCreateWrappedResource_def WrapAndStore_def GetDesc12_def Let_def
          ucast_widen_narrow)
qed

section \<open>Initialization of the explicit backend\<close>

text \<open>
  On an initialize or after-reset event with a device and a command queue from the host,
  the steps the backend goes through are, in this order, the interop device, the capture
  device, the composition device and the fence, up to and including the first step that
  fails: no call of a later step is issued.  Nothing is released on the way out, so
  \<open>IsInitialized\<close> is true as soon as \<open>D3D11On12CreateDevice\<close> has succeeded, whichever
  step fails afterwards.
\<close>

lemma ProcessDeviceEvent_D3D12_steps:
  assumes event: "eventType = kUnityGfxDeviceEventInitialize \<or> eventType = kUnityGfxDeviceEventAfterReset"
    and host: "Get_IUnityGraphicsD3D12v5 i = Some \<lparr>GetDevice = Some device, GetCommandQueue = Some queue\<rparr>"
  shows "steps_run (calls_since (length (calls s))
                      (calls (ProcessDeviceEvent_D3D12 env wenv s eventType (Some i)))) =
           (if \<not> interop_ok env then [Step_InteropDevice]
            else if \<not> capture_ok env then [Step_InteropDevice, Step_CaptureDevice]
            else if \<not> composition_ok env
              then [Step_InteropDevice, Step_CaptureDevice, Step_CompositionDevice]
            else [Step_InteropDevice, Step_CaptureDevice, Step_CompositionDevice, Step_Fence]) \<and>
         IsInitialized_D3D12 (ProcessDeviceEvent_D3D12 env wenv s eventType (Some i)) =
           (D3D11On12CreateDevice_result env \<noteq> None) \<and>
         fst (CreateSharedTexture_D3D12 r (ProcessDeviceEvent_D3D12 env wenv s eventType (Some i))
                w h (Some cell)) \<noteq> ErrorNotInitialized"
  using assms
  by (auto simp: init12_defs steps_run_def calls_since_def map_filter_simps interop_ok_def
        capture_ok_def composition_ok_def IsInitialized_D3D12_def CreateSharedTexture_D3D12_def
        Let_def split: option.splits prod.splits)

text \<open>
  C4 does not hold of the code.  The order and the abort are as the claim says; the
  state after the abort is not.  When the capture device cannot be created,
  \<open>ProcessDeviceEvent\<close> returns after the second step with the D3D12 device and the
  interop device bound and the capture device, the composition device and the fence
  null.  \<open>IsInitialized\<close>, documented as ``properly initialized'' and tested by the callers
  before they use the backend, reports true; \<open>CreateSharedTexture\<close> succeeds; and the
  copy of a captured frame into that texture, which uses the capture device without a
  test, dereferences null.
\<close>

theorem ProcessDeviceEvent_D3D12_failed_step_stays_initialized:
  "\<not> capture_ok ex_init_capture_fails \<and>
   steps_run (calls ex_d3d12_partial) = [Step_InteropDevice, Step_CaptureDevice] \<and>
   m_captureD3D11Device ex_d3d12_partial = None \<and>
   m_compositionDevice12 ex_d3d12_partial = None \<and>
   m_fence ex_d3d12_partial = None \<and>
   IsInitialized_D3D12 ex_d3d12_partial \<and>
   fst (CreateSharedTexture_D3D12 (Some 50) ex_d3d12_partial 800 600 (Some None)) = Success \<and>
   CopyCapturedTextureToUnityTexture_D3D12 ex_copy
     (snd (snd (CreateSharedTexture_D3D12 (Some 50) ex_d3d12_partial 800 600 (Some None))))
     (Some ex_captured) (Some ex_resource) True = None"
  by (simp add: ex_d3d12_partial_eq RenderAPI_D3D12_new_def capture_ok_def
        ex_init_capture_fails_def ex_init_def steps_run_def map_filter_simps
        IsInitialized_D3D12_def CreateSharedTexture_D3D12_def
        CopyCapturedTextureToUnityTexture_D3D12_def GetOrCreateWrappedResource_def
        WrapAndStore_def GetDesc12_def ex_copy_def ex_captured_def ex_resource_def
        ucast_widen_narrow Let_def)

theorem ProcessDeviceEvent_D3D12_failed_step_stays_initialized_witness:
  "Width (tex_desc ex_captured) = ucast (Width12 (GetDesc12 ex_resource)) \<and>
   Height (tex_desc ex_captured) = Height12 (GetDesc12 ex_resource) \<and>
   fst (GetOrCreateWrappedResource (CreateWrappedResource_result ex_copy)
          (snd (snd (CreateSharedTexture_D3D12 (Some 50) ex_d3d12_partial 800 600 (Some None))))
          ex_resource) =
     Some \<lparr>d3d12Resource = 50,
            d3d11Resource = \<lparr>res11_ptr = 61,
                              as_texture2d = Some \<lparr>Width = 800, Height = 600\<rparr>\<rparr>\<rparr> \<and>
   m_captureD3D11Device
     (snd (snd (CreateSharedTexture_D3D12 (Some 50) ex_d3d12_partial 800 600 (Some None)))) = None \<and>
   IsInitialized_D3D12 ex_d3d12_partial \<and>
   CopyCapturedTextureToUnityTexture_D3D12 ex_copy
     (snd (snd (CreateSharedTexture_D3D12 (Some 50) ex_d3d12_partial 800 600 (Some None))))
     (Some ex_captured) (Some ex_resource) True = None"
proof -
  have guards:
    "Width (tex_desc ex_captured) = ucast (Width12 (GetDesc12 ex_resource))"
    "Height (tex_desc ex_captured) = Height12 (GetDesc12 ex_resource)"
    by (simp_all add: ex_captured_def ex_resource_def GetDesc12_def ucast_widen_narrow)
  have wrapped:
    "fst (GetOrCreateWrappedResource (CreateWrappedResource_result ex_copy)
            (snd (snd (CreateSharedTexture_D3D12 (Some 50) ex_d3d12_partial 800 600 (Some None))))
            ex_resource) =
       Some \<lparr>d3d12Resource = 50,
              d3d11Resource = \<lparr>res11_ptr = 61,
                                as_texture2d = Some \<lparr>Width = 800, Height = 600\<rparr>\<rparr>\<rparr>"
    by (simp add: ex_d3d12_partial_eq RenderAPI_D3D12_new_def CreateSharedTexture_D3D12_def
          GetOrCreateWrappedResource_def WrapAndStore_def GetDesc12_def ex_copy_def
          ex_resource_def ucast_widen_narrow Let_def)
  have null:
    "m_captureD3D11Device
       (snd (snd (CreateSharedTexture_D3D12 (Some 50) ex_d3d12_partial 800 600 (Some None)))) = None"
    by (simp add: ex_d3d12_partial_eq RenderAPI_D3D12_new_def CreateSharedTexture_D3D12_def)
  from ProcessDeviceEvent_D3D12_failed_step_stays_initialized have bug:
    "IsInitialized_D3D12 ex_d3d12_partial"
    "CopyCapturedTextureToUnityTexture_D3D12 ex_copy
       (snd (snd (CreateSharedTexture_D3D12 (Some 50) ex_d3d12_partial 800 600 (Some None))))
       (Some ex_captured) (Some ex_resource) True = None"
    by blast+
  from guards wrapped null bug show ?thesis
    by (intro conjI)
qed

text \<open>
  C6 does not hold of the code.  A second initialize event without a release in between:
  \<open>CreateFence\<close> assigns the new event to \<open>m_fenceEvent\<close> without closing the one it
  holds.  The first event (11) stays open with no member referring to it, and the
  shutdown that follows closes only the second (12).
\<close>

theorem ProcessDeviceEvent_D3D12_twice_leaks_event:
  "m_fenceEvent ex_d3d12 = Some 11 \<and> os_events ex_d3d12 = {11} \<and>
   m_fenceEvent (ProcessDeviceEvent_D3D12 ex_init_again ex_wait ex_d3d12
                   kUnityGfxDeviceEventInitialize (Some ex_interfaces)) = Some 12 \<and>
   os_events (ProcessDeviceEvent_D3D12 ex_init_again ex_wait ex_d3d12
                kUnityGfxDeviceEventInitialize (Some ex_interfaces)) = {11, 12} \<and>
   os_events (ProcessDeviceEvent_D3D12 ex_init ex_wait
                (ProcessDeviceEvent_D3D12 ex_init_again ex_wait ex_d3d12
                   kUnityGfxDeviceEventInitialize (Some ex_interfaces))
                kUnityGfxDeviceEventShutdown (Some ex_interfaces)) = {11}"
  by (simp add: ex_d3d12_eq ex_init_again_def ex_interfaces_def ex_wait_def init12_defs
        ReleaseResources_D3D12_def WaitForGPU_def Let_def insert_commute)

section \<open>Initialization of the capture session\<close>

text \<open>
  Whatever fails inside, \<open>Initialize\<close> on a ready WebView returns \<open>Success\<close>: the two
  steps swallow every failure, so the \<open>catch\<close> of \<open>Initialize\<close> is never reached.
\<close>

lemma Initialize_result:
  "fst (Initialize vt_env gc_env s) =
     (case m_webView s of
        None \<Rightarrow> ErrorNotInitialized
      | Some webView \<Rightarrow> if IsReady webView then Success else ErrorNotInitialized)"
  by (simp add: Initialize_def InitializeVisualTree_def InitializeGraphicsCapture_def
      split: option.splits prod.splits completion.splits)

text \<open>
  C7 does not hold of the code.  With no capture device, \<open>InitializeGraphicsCapture\<close>
  returns early and \<open>Initialize\<close> reports \<open>Success\<close> with no session.  When
  \<open>StartCapture\<close> throws, \<open>Initialize\<close> reports \<open>Success\<close> as well, and the item, the
  frame pool and the session that was never started stay stored in the members.
\<close>

theorem Initialize_failure_reported_as_Success:
  "Initialize ex_visual_tree ex_graphics_capture ex_capture =
     (Success,
      ex_capture\<lparr>m_compositor := Some 83, m_windowTarget := Some 84, m_rootVisual := Some 85,
                 m_webViewVisual := Some 86\<rparr>) \<and>
   fst (Initialize ex_visual_tree (ex_graphics_capture\<lparr>StartCapture_ok := False\<rparr>)
          (ex_capture\<lparr>m_renderAPI := \<lparr>GetCaptureD3D11Device = Some 6\<rparr>\<rparr>)) = Success \<and>
   m_session (snd (Initialize ex_visual_tree (ex_graphics_capture\<lparr>StartCapture_ok := False\<rparr>)
          (ex_capture\<lparr>m_renderAPI := \<lparr>GetCaptureD3D11Device = Some 6\<rparr>\<rparr>))) = Some 90 \<and>
   capture_calls (snd (Initialize ex_visual_tree (ex_graphics_capture\<lparr>StartCapture_ok := False\<rparr>)
          (ex_capture\<lparr>m_renderAPI := \<lparr>GetCaptureD3D11Device = Some 6\<rparr>\<rparr>))) =
     [Call_FramePool_Create \<lparr>size_Width = 800, size_Height = 600\<rparr> 2]"
  by (simp add: Initialize_def InitializeVisualTree_def InitializeGraphicsCapture_def
        InitializeVisualTree_try_def InitializeGraphicsCapture_try_def ex_capture_def
        ex_webview_def ex_visual_tree_def ex_graphics_capture_def Let_def)

section \<open>Copying a captured frame: the Y-flip\<close>

text \<open>
  C5.  Source and destination have the same size, of height \<open>H\<close>.  On the legacy
  backend (a context being bound) the copy without flip is one \<open>CopyResource\<close>; with
  \<open>flipY\<close> it is \<open>H\<close> one-row \<open>CopySubresourceRegion\<close> calls, the one for \<open>y\<close> being issued
  \<open>y\<close>-th and copying source row \<open>H - 1 - y\<close> to destination row \<open>y\<close>.  On the explicit
  backend, when the copy reaches the update (a wrapper is obtained, the staging texture
  is created and mapped, the members it dereferences are bound), the update with
  \<open>flipY\<close> is \<open>H\<close> one-row \<open>UpdateSubresource\<close> calls between the acquire and the release
  of the wrapper, the one for \<open>y\<close> being issued \<open>y\<close>-th and writing destination row \<open>y\<close>
  from mapped row \<open>H - 1 - y\<close>.  The mapped image is smaller than 4 GiB, as that of any
  D3D11 texture is, so that the \<open>UINT\<close> product \<open>srcY * RowPitch\<close> does not wrap.
\<close>

theorem Copy_flipY_rows:
  assumes size11: "tex_desc dst11 = tex_desc src"
    and ctx11: "m_context s11 \<noteq> None"
    and size12: "res_width dst12 = Width (tex_desc src)" "res_height dst12 = Height (tex_desc src)"
    and wrapped: "GetOrCreateWrappedResource (CreateWrappedResource_result env) s12 dst12
                    = (Some wrapped, s1)"
    and staging: "CreateStagingTexture_result env = Some stagingTexture"
    and mapped: "Map_result env = Some mapped"
    and members: "m_captureD3D11Device s12 \<noteq> None" "m_captureD3D11Context s12 \<noteq> None"
                 "m_d3d11On12Device s12 \<noteq> None" "m_d3d11Context s12 \<noteq> None"
    and fits: "unat (Height (tex_desc src)) * unat (RowPitch mapped) \<le> 2 ^ 32"
  shows "calls11 (CopyCapturedTextureToUnityTexture_D3D11 s11 (Some src) (Some dst11) False) =
           calls11 s11 @ [Call_CopyResource (tex_ptr dst11) (tex_ptr src)] \<and>
         calls11 (CopyCapturedTextureToUnityTexture_D3D11 s11 (Some src) (Some dst11) True) =
           calls11 s11 @
           map (row_copy_D3D11 (tex_ptr dst11) (tex_ptr src)
                  (Width (tex_desc src)) (Height (tex_desc src)))
               [0..<unat (Height (tex_desc src))] \<and>
         (\<exists>s'. CopyCapturedTextureToUnityTexture_D3D12 env s12 (Some src) (Some dst12) True = Some s' \<and>
               calls s' =
                 calls s1 @
                 [Call_CreateStagingTexture (Width (tex_desc src)) (Height (tex_desc src)),
                  Call_CopyResourceToStaging stagingTexture (tex_ptr src),
                  Call_Map stagingTexture,
                  Call_AcquireWrappedResources (res11_ptr (d3d11Resource wrapped))] @
                 map (row_update_D3D12 (res11_ptr (d3d11Resource wrapped))
                        (Width (tex_desc src)) (Height (tex_desc src)) mapped)
                     [0..<unat (Height (tex_desc src))] @
                 [Call_Unmap stagingTexture,
                  Call_ReleaseWrappedResources (res11_ptr (d3d11Resource wrapped)),
                  Call_Flush])"
proof (intro conjI)
  show "calls11 (CopyCapturedTextureToUnityTexture_D3D11 s11 (Some src) (Some dst11) False) =
          calls11 s11 @ [Call_CopyResource (tex_ptr dst11) (tex_ptr src)]"
    using size11 ctx11 by (auto simp: CopyCapturedTextureToUnityTexture_D3D11_def Let_def)
next
  show "calls11 (CopyCapturedTextureToUnityTexture_D3D11 s11 (Some src) (Some dst11) True) =
          calls11 s11 @
          map (row_copy_D3D11 (tex_ptr dst11) (tex_ptr src)
                 (Width (tex_desc src)) (Height (tex_desc src)))
              [0..<unat (Height (tex_desc src))]"
    using size11 ctx11
    by (auto simp: CopyCapturedTextureToUnityTexture_D3D11_def CopyRows_D3D11_rows Let_def)
next
  note dst = GetOrCreateWrappedResource_Some [OF wrapped]
  note keep = GetOrCreateWrappedResource_members [OF wrapped]
  have rows: "UpdateRows_D3D12 d (tex_desc src) mapped W (Height (tex_desc src)) 0 issued =
                issued @ map (row_update_D3D12 d W (Height (tex_desc src)) mapped)
                           [0..<unat (Height (tex_desc src))]" for d W issued
    by (rule UpdateRows_D3D12_rows [OF fits])
  show "\<exists>s'. CopyCapturedTextureToUnityTexture_D3D12 env s12 (Some src) (Some dst12) True = Some s' \<and>
               calls s' =
                 calls s1 @
                 [Call_CreateStagingTexture (Width (tex_desc src)) (Height (tex_desc src)),
                  Call_CopyResourceToStaging stagingTexture (tex_ptr src),
                  Call_Map stagingTexture,
                  Call_AcquireWrappedResources (res11_ptr (d3d11Resource wrapped))] @
                 map (row_update_D3D12 (res11_ptr (d3d11Resource wrapped))
                        (Width (tex_desc src)) (Height (tex_desc src)) mapped)
                     [0..<unat (Height (tex_desc src))] @
                 [Call_Unmap stagingTexture,
                  Call_ReleaseWrappedResources (res11_ptr (d3d11Resource wrapped)),
                  Call_Flush]"
    using size12 wrapped staging mapped members keep dst(1)
    by (auto simp: CopyCapturedTextureToUnityTexture_D3D12_def GetDesc12_def ucast_widen_narrow
          Let_def rows)
qed

theorem Copy_flipY_rows_witness:
  "calls11 (CopyCapturedTextureToUnityTexture_D3D11 ex_small11 (Some ex_small_captured)
              (Some ex_small_texture11) False) =
     calls11 ex_small11 @ [Call_CopyResource 50 70] \<and>
   calls11 (CopyCapturedTextureToUnityTexture_D3D11 ex_small11 (Some ex_small_captured)
              (Some ex_small_texture11) True) =
     calls11 ex_small11 @
     [Call_CopySubresourceRegion 50 0 0 0 0 70 0
        \<lparr>box_left = 0, box_right = 2, box_top = 2, box_bottom = 3, box_front = 0, box_back = 1\<rparr>,
      Call_CopySubresourceRegion 50 0 0 1 0 70 0
        \<lparr>box_left = 0, box_right = 2, box_top = 1, box_bottom = 2, box_front = 0, box_back = 1\<rparr>,
      Call_CopySubresourceRegion 50 0 0 2 0 70 0
        \<lparr>box_left = 0, box_right = 2, box_top = 0, box_bottom = 1, box_front = 0, box_back = 1\<rparr>] \<and>
   (\<exists>s'. CopyCapturedTextureToUnityTexture_D3D12 ex_copy ex_small12 (Some ex_small_captured)
            (Some ex_small_resource) True = Some s' \<and>
         calls s' =
           calls ex_small12 @
           [Call_CreateWrappedResource 50,
            Call_CreateStagingTexture 2 3,
            Call_CopyResourceToStaging 62 70,
            Call_Map 62,
            Call_AcquireWrappedResources 61,
            Call_UpdateSubresource 61 0
              (Some \<lparr>box_left = 0, box_right = 2, box_top = 0, box_bottom = 1,
                     box_front = 0, box_back = 1\<rparr>) 4608 256 0,
            Call_UpdateSubresource 61 0
              (Some \<lparr>box_left = 0, box_right = 2, box_top = 1, box_bottom = 2,
                     box_front = 0, box_back = 1\<rparr>) 4352 256 0,
            Call_UpdateSubresource 61 0
              (Some \<lparr>box_left = 0, box_right = 2, box_top = 2, box_bottom = 3,
                     box_front = 0, box_back = 1\<rparr>) 4096 256 0,
            Call_Unmap 62,
            Call_ReleaseWrappedResources 61,
            Call_Flush])"
proof -
  let ?wrapped = "\<lparr>d3d12Resource = 50,
                    d3d11Resource = \<lparr>res11_ptr = 61,
                                      as_texture2d = Some \<lparr>Width = 2, Height = 3\<rparr>\<rparr>\<rparr>"
  let ?s1 = "ex_small12\<lparr>calls := calls ex_small12 @ [Call_CreateWrappedResource 50],
                        m_wrappedResources := [50 \<mapsto> ?wrapped]\<rparr>"
  have size11: "tex_desc ex_small_texture11 = tex_desc ex_small_captured"
    by (simp add: ex_small_texture11_def ex_small_captured_def)
  have ctx11: "m_context ex_small11 \<noteq> None"
    by (simp add: ex_small11_eq ex_d3d11_eq)
  have size12: "res_width ex_small_resource = Width (tex_desc ex_small_captured)"
    "res_height ex_small_resource = Height (tex_desc ex_small_captured)"
    by (simp_all add: ex_small_resource_def ex_small_captured_def)
  have wrapped: "GetOrCreateWrappedResource (CreateWrappedResource_result ex_copy) ex_small12
                   ex_small_resource = (Some ?wrapped, ?s1)"
    by (simp add: ex_copy_def ex_small12_eq ex_d3d12_eq ex_small_resource_def
          GetOrCreateWrappedResource_def WrapAndStore_def GetDesc12_def Let_def ucast_widen_narrow)
  have staging: "CreateStagingTexture_result ex_copy = Some 62"
    and mapped: "Map_result ex_copy = Some \<lparr>pData = 4096, RowPitch = 256\<rparr>"
    by (simp_all add: ex_copy_def)
  have members: "m_captureD3D11Device ex_small12 \<noteq> None" "m_captureD3D11Context ex_small12 \<noteq> None"
    "m_d3d11On12Device ex_small12 \<noteq> None" "m_d3d11Context ex_small12 \<noteq> None"
    by (simp_all add: ex_small12_eq ex_d3d12_eq)
  have fits: "unat (Height (tex_desc ex_small_captured)) *
              unat (RowPitch \<lparr>pData = 4096, RowPitch = 256\<rparr>) \<le> 2 ^ 32"
    by (simp add: ex_small_captured_def)
  have rows: "[0..<3] = [0, 1, 2 :: nat]"
    by code_simp
  from Copy_flipY_rows [OF size11 ctx11 size12 wrapped staging mapped members fits]
  show ?thesis
    by (simp add: ex_small_texture11_def ex_small_captured_def rows row_copy_D3D11_def
          row_update_D3D12_def mapped_row_def)
qed

section \<open>The invariant of the wrap cache\<close>

text \<open>
  C9, as stated, fails in its last part: a wrapper whose dimensions disagree with the
  current descriptor of the resource is not always discarded and rebuilt before it is
  used.  \<open>EndRenderToTexture\<close> looks the pointer up in the cache and hands the wrapper it
  finds to \<open>ReleaseWrappedResources\<close> without reading any descriptor.  With the wrapper
  made at 800 by 600 in the cache and the texture at that pointer now 1024 by 768, it
  releases the stale wrapper (60) and leaves it in the cache.
\<close>

theorem EndRenderToTexture_stale_counterexample:
  "wrap_cache_inv ex_d3d12_stale \<and>
   m_wrappedResources ex_d3d12_stale 50 =
     Some \<lparr>d3d12Resource = 50,
            d3d11Resource = \<lparr>res11_ptr = 60,
                              as_texture2d = Some \<lparr>Width = 800, Height = 600\<rparr>\<rparr>\<rparr> \<and>
   textures ex_d3d12_stale (res_ptr ex_resized_resource) = Some (GetDesc12 ex_resized_resource) \<and>
   GetDesc12 ex_resized_resource = \<lparr>Width12 = 1024, Height12 = 768\<rparr> \<and>
   stale_for (the (m_wrappedResources ex_d3d12_stale 50)) ex_resized_resource \<and>
   EndRenderToTexture_D3D12 ex_d3d12_stale (Some 50) =
     Some (ex_d3d12_stale\<lparr>calls := calls ex_d3d12_stale @
                               [Call_ReleaseWrappedResources 60, Call_Flush]\<rparr>) \<and>
   m_wrappedResources (the (EndRenderToTexture_D3D12 ex_d3d12_stale (Some 50))) 50 =
     m_wrappedResources ex_d3d12_stale 50"
  by (simp add: ex_d3d12_stale_eq ex_d3d12_wrapped_eq ex_d3d12_tex_eq ex_d3d12_eq
        ex_resized_resource_def GetDesc12_def stale_for_def EndRenderToTexture_D3D12_def
        wrap_cache_inv_def)

text \<open>
  C9, amended.  The wrap cache is a map from resource pointers, so a key has one wrapper;
  the invariant says that the wrapper stored under a pointer wraps the resource at that
  pointer and that this resource is a live shared texture: at most one wrapper for each
  outstanding texture, none for a texture that is gone.  It holds of the new backend and
  every operation preserves it (\<open>GetOrCreateWrappedResource\<close>, \<open>BeginRenderToTexture\<close>
  and the copy being given a live texture).  \<open>DestroySharedTexture\<close> removes the wrapper
  of the texture it destroys.  \<open>GetOrCreateWrappedResource\<close> never returns a wrapper
  whose dimensions disagree with the current descriptor of the resource, and leaves no
  such wrapper in the cache for it.  \<open>BeginRenderToTexture\<close> does nothing without an
  interop device or a texture; otherwise it acquires exactly the wrapper that
  \<open>GetOrCreateWrappedResource\<close> returns, which is not stale and is the one in the cache,
  and nothing when that returns null; in particular, finding a stale wrapper, it erases
  it, asks for a new one and acquires the new one, never the stale one.  A copy that
  returns acquires nothing or exactly the wrapper that \<open>GetOrCreateWrappedResource\<close>
  returns, and when the sizes match, the platform calls succeed and the members are bound
  it does return, having acquired that wrapper.  \<open>EndRenderToTexture\<close> is outside the
  rule: it does nothing without an interop device, a texture or a cache entry, and
  otherwise releases the cached wrapper, whatever its dimensions, and flushes.
\<close>

theorem wrap_cache_invariant:
  "wrap_cache_inv RenderAPI_D3D12_new \<and>
   (wrap_cache_inv s \<longrightarrow>
      wrap_cache_inv (snd (snd (CreateSharedTexture_D3D12 res s w h out))) \<and>
      wrap_cache_inv (DestroySharedTexture_D3D12 s ptr) \<and>
      wrap_cache_inv (snd (snd (ResizeSharedTexture_D3D12 wenv res s ptr w h out))) \<and>
      wrap_cache_inv (WaitForGPU wenv s) \<and>
      wrap_cache_inv (ProcessDeviceEvent_D3D12 env wenv s eventType interfaces) \<and>
      (\<forall>s'. EndRenderToTexture_D3D12 s ptr = Some s' \<longrightarrow> wrap_cache_inv s') \<and>
      wrap_cache_inv (BeginRenderToTexture_D3D12 wres s None) \<and>
      (res_ptr r \<in> dom (textures s) \<longrightarrow>
         wrap_cache_inv (snd (GetOrCreateWrappedResource wres s r)) \<and>
         wrap_cache_inv (BeginRenderToTexture_D3D12 wres s (Some r)) \<and>
         (\<forall>s'. CopyCapturedTextureToUnityTexture_D3D12 cenv s captured (Some r) flipY = Some s'
                 \<longrightarrow> wrap_cache_inv s'))) \<and>
   m_wrappedResources (DestroySharedTexture_D3D12 s (Some p)) p = None \<and>
   (\<forall>wrapped. fst (GetOrCreateWrappedResource wres s r) = Some wrapped \<longrightarrow>
               \<not> stale_for wrapped r) \<and>
   (\<forall>cached. m_wrappedResources (snd (GetOrCreateWrappedResource wres s r)) (res_ptr r)
                = Some cached \<longrightarrow> \<not> stale_for cached r) \<and>
   BeginRenderToTexture_D3D12 wres s None = s \<and>
   (m_d3d11On12Device s = None \<longrightarrow> BeginRenderToTexture_D3D12 wres s (Some r) = s) \<and>
   (m_d3d11On12Device s \<noteq> None \<longrightarrow>
      (case GetOrCreateWrappedResource wres s r of
         (None, s1) \<Rightarrow> BeginRenderToTexture_D3D12 wres s (Some r) = s1
       | (Some wd, s1) \<Rightarrow>
           \<not> stale_for wd r \<and> m_wrappedResources s1 (res_ptr r) = Some wd \<and>
           BeginRenderToTexture_D3D12 wres s (Some r) =
             s1\<lparr>calls := calls s1 @
                    [Call_AcquireWrappedResources (res11_ptr (d3d11Resource wd))]\<rparr>)) \<and>
   (m_d3d11On12Device s \<noteq> None \<and> m_wrappedResources s (res_ptr r) = Some old \<and>
    stale_for old r \<longrightarrow>
      BeginRenderToTexture_D3D12 wres s (Some r) =
        (case wres of
           None \<Rightarrow>
             s\<lparr>m_wrappedResources := (m_wrappedResources s)(res_ptr r := None),
               calls := calls s @ [Call_CreateWrappedResource (res_ptr r)]\<rparr>
         | Some d3d11 \<Rightarrow>
             s\<lparr>m_wrappedResources :=
                 (m_wrappedResources s)
                   (res_ptr r \<mapsto>
                      \<lparr>d3d12Resource = res_ptr r,
                       d3d11Resource =
                         \<lparr>res11_ptr = d3d11,
                          as_texture2d =
                            Some \<lparr>Width = res_width r, Height = res_height r\<rparr>\<rparr>\<rparr>),
               calls := calls s @
                 [Call_CreateWrappedResource (res_ptr r),
                  Call_AcquireWrappedResources d3d11]\<rparr>)) \<and>
   (\<forall>s'. CopyCapturedTextureToUnityTexture_D3D12 cenv s captured (Some r) flipY = Some s' \<longrightarrow>
          acquired (calls s') = acquired (calls s) \<or>
          (\<exists>wd. fst (GetOrCreateWrappedResource (CreateWrappedResource_result cenv) s r) = Some wd \<and>
                \<not> stale_for wd r \<and>
                acquired (calls s') = acquired (calls s) @ [res11_ptr (d3d11Resource wd)])) \<and>
   (res_width r = Width (tex_desc src) \<and> res_height r = Height (tex_desc src) \<and>
    CreateWrappedResource_result cenv \<noteq> None \<and> CreateStagingTexture_result cenv \<noteq> None \<and>
    Map_result cenv \<noteq> None \<and>
    m_captureD3D11Device s \<noteq> None \<and> m_captureD3D11Context s \<noteq> None \<and>
    m_d3d11On12Device s \<noteq> None \<and> m_d3d11Context s \<noteq> None \<longrightarrow>
      (\<exists>s' wd. CopyCapturedTextureToUnityTexture_D3D12 cenv s (Some src) (Some r) flipY = Some s' \<and>
               fst (GetOrCreateWrappedResource (CreateWrappedResource_result cenv) s r) = Some wd \<and>
               \<not> stale_for wd r \<and>
               m_wrappedResources s' (res_ptr r) = Some wd \<and>
               acquired (calls s') = acquired (calls s) @ [res11_ptr (d3d11Resource wd)])) \<and>
   EndRenderToTexture_D3D12 s None = Some s \<and>
   (m_d3d11On12Device s = None \<longrightarrow> EndRenderToTexture_D3D12 s ptr = Some s) \<and>
   (m_wrappedResources s p = None \<longrightarrow> EndRenderToTexture_D3D12 s (Some p) = Some s) \<and>
   (m_d3d11On12Device s \<noteq> None \<and> m_d3d11Context s \<noteq> None \<and>
    m_wrappedResources s p = Some kept \<longrightarrow>
      EndRenderToTexture_D3D12 s (Some p) =
        Some (s\<lparr>calls := calls s @
                  [Call_ReleaseWrappedResources (res11_ptr (d3d11Resource kept)), Call_Flush]\<rparr>))"
proof -
  obtain wrapper s1 where g: "GetOrCreateWrappedResource wres s r = (wrapper, s1)"
    by fastforce
  note fresh = GetOrCreateWrappedResource_never_stale [OF g]
  have c1: "wrap_cache_inv RenderAPI_D3D12_new"
    by (rule wrap_cache_inv_new)
  have c2: "wrap_cache_inv s \<longrightarrow>
      wrap_cache_inv (snd (snd (CreateSharedTexture_D3D12 res s w h out))) \<and>
      wrap_cache_inv (DestroySharedTexture_D3D12 s ptr) \<and>
      wrap_cache_inv (snd (snd (ResizeSharedTexture_D3D12 wenv res s ptr w h out))) \<and>
      wrap_cache_inv (WaitForGPU wenv s) \<and>
      wrap_cache_inv (ProcessDeviceEvent_D3D12 env wenv s eventType interfaces) \<and>
      (\<forall>s'. EndRenderToTexture_D3D12 s ptr = Some s' \<longrightarrow> wrap_cache_inv s') \<and>
      wrap_cache_inv (BeginRenderToTexture_D3D12 wres s None) \<and>
      (res_ptr r \<in> dom (textures s) \<longrightarrow>
         wrap_cache_inv (snd (GetOrCreateWrappedResource wres s r)) \<and>
         wrap_cache_inv (BeginRenderToTexture_D3D12 wres s (Some r)) \<and>
         (\<forall>s'. CopyCapturedTextureToUnityTexture_D3D12 cenv s captured (Some r) flipY = Some s'
                 \<longrightarrow> wrap_cache_inv s'))"
  proof (intro impI conjI allI)
    assume inv: "wrap_cache_inv s"
    show "wrap_cache_inv (snd (snd (CreateSharedTexture_D3D12 res s w h out)))"
      using inv by (rule wrap_cache_inv_Create)
    show "wrap_cache_inv (DestroySharedTexture_D3D12 s ptr)"
      using inv by (rule wrap_cache_inv_Destroy)
    show "wrap_cache_inv (snd (snd (ResizeSharedTexture_D3D12 wenv res s ptr w h out)))"
      using inv by (rule wrap_cache_inv_Resize)
    show "wrap_cache_inv (WaitForGPU wenv s)"
      using inv by (simp only: wrap_cache_inv_WaitForGPU)
    show "wrap_cache_inv (ProcessDeviceEvent_D3D12 env wenv s eventType interfaces)"
      using inv by (rule wrap_cache_inv_ProcessDeviceEvent)
    show "wrap_cache_inv s'" if "EndRenderToTexture_D3D12 s ptr = Some s'" for s'
      using inv that by (rule wrap_cache_inv_End)
    show "wrap_cache_inv (BeginRenderToTexture_D3D12 wres s None)"
      using inv by (rule wrap_cache_inv_Begin) simp
    assume live: "res_ptr r \<in> dom (textures s)"
    show "wrap_cache_inv (snd (GetOrCreateWrappedResource wres s r))"
      using inv live by (rule wrap_cache_inv_GetOrCreate)
    show "wrap_cache_inv (BeginRenderToTexture_D3D12 wres s (Some r))"
      using inv by (rule wrap_cache_inv_Begin) (simp add: live)
    show "wrap_cache_inv s'"
      if "CopyCapturedTextureToUnityTexture_D3D12 cenv s captured (Some r) flipY = Some s'" for s'
      using inv live that by (rule wrap_cache_inv_Copy)
  qed
  have c3: "m_wrappedResources (DestroySharedTexture_D3D12 s (Some p)) p = None"
    by (simp add: DestroySharedTexture_D3D12_def)
  have c4: "\<forall>wrapped. fst (GetOrCreateWrappedResource wres s r) = Some wrapped \<longrightarrow>
                     \<not> stale_for wrapped r"
    using fresh(1) by (simp add: g)
  have c5: "\<forall>cached. m_wrappedResources (snd (GetOrCreateWrappedResource wres s r)) (res_ptr r)
                      = Some cached \<longrightarrow> \<not> stale_for cached r"
    using fresh(2) by (simp add: g)
  have c6: "BeginRenderToTexture_D3D12 wres s None = s"
    by (simp add: BeginRenderToTexture_D3D12_def)
  have c7: "m_d3d11On12Device s = None \<longrightarrow> BeginRenderToTexture_D3D12 wres s (Some r) = s"
    by (simp add: BeginRenderToTexture_D3D12_def)
  have c8: "m_d3d11On12Device s \<noteq> None \<longrightarrow>
      (case GetOrCreateWrappedResource wres s r of
         (None, s1) \<Rightarrow> BeginRenderToTexture_D3D12 wres s (Some r) = s1
       | (Some wd, s1) \<Rightarrow>
           \<not> stale_for wd r \<and> m_wrappedResources s1 (res_ptr r) = Some wd \<and>
           BeginRenderToTexture_D3D12 wres s (Some r) =
             s1\<lparr>calls := calls s1 @
                    [Call_AcquireWrappedResources (res11_ptr (d3d11Resource wd))]\<rparr>)"
    by (rule impI) (rule BeginRenderToTexture_acquires)
  have c9: "m_d3d11On12Device s \<noteq> None \<and> m_wrappedResources s (res_ptr r) = Some old \<and>
    stale_for old r \<longrightarrow>
      BeginRenderToTexture_D3D12 wres s (Some r) =
        (case wres of
           None \<Rightarrow>
             s\<lparr>m_wrappedResources := (m_wrappedResources s)(res_ptr r := None),
               calls := calls s @ [Call_CreateWrappedResource (res_ptr r)]\<rparr>
         | Some d3d11 \<Rightarrow>
             s\<lparr>m_wrappedResources :=
                 (m_wrappedResources s)
                   (res_ptr r \<mapsto>
                      \<lparr>d3d12Resource = res_ptr r,
                       d3d11Resource =
                         \<lparr>res11_ptr = d3d11,
                          as_texture2d =
                            Some \<lparr>Width = res_width r, Height = res_height r\<rparr>\<rparr>\<rparr>),
               calls := calls s @
                 [Call_CreateWrappedResource (res_ptr r),
                  Call_AcquireWrappedResources d3d11]\<rparr>)"
    by (blast intro: BeginRenderToTexture_stale)
  have c10: "\<forall>s'. CopyCapturedTextureToUnityTexture_D3D12 cenv s captured (Some r) flipY = Some s' \<longrightarrow>
          acquired (calls s') = acquired (calls s) \<or>
          (\<exists>wd. fst (GetOrCreateWrappedResource (CreateWrappedResource_result cenv) s r) = Some wd \<and>
                \<not> stale_for wd r \<and>
                acquired (calls s') = acquired (calls s) @ [res11_ptr (d3d11Resource wd)])"
  proof (intro allI impI)
    fix s'
    assume copy: "CopyCapturedTextureToUnityTexture_D3D12 cenv s captured (Some r) flipY = Some s'"
    obtain w2 s2 where
      g2: "GetOrCreateWrappedResource (CreateWrappedResource_result cenv) s r = (w2, s2)"
      by fastforce
    from Copy_D3D12_acquires [OF copy] GetOrCreateWrappedResource_never_stale(1) [OF g2] g2
    show "acquired (calls s') = acquired (calls s) \<or>
          (\<exists>wd. fst (GetOrCreateWrappedResource (CreateWrappedResource_result cenv) s r) = Some wd \<and>
                \<not> stale_for wd r \<and>
                acquired (calls s') = acquired (calls s) @ [res11_ptr (d3d11Resource wd)])"
      by auto
  qed
  have c11: "res_width r = Width (tex_desc src) \<and> res_height r = Height (tex_desc src) \<and>
    CreateWrappedResource_result cenv \<noteq> None \<and> CreateStagingTexture_result cenv \<noteq> None \<and>
    Map_result cenv \<noteq> None \<and>
    m_captureD3D11Device s \<noteq> None \<and> m_captureD3D11Context s \<noteq> None \<and>
    m_d3d11On12Device s \<noteq> None \<and> m_d3d11Context s \<noteq> None \<longrightarrow>
      (\<exists>s' wd. CopyCapturedTextureToUnityTexture_D3D12 cenv s (Some src) (Some r) flipY = Some s' \<and>
               fst (GetOrCreateWrappedResource (CreateWrappedResource_result cenv) s r) = Some wd \<and>
               \<not> stale_for wd r \<and>
               m_wrappedResources s' (res_ptr r) = Some wd \<and>
               acquired (calls s') = acquired (calls s) @ [res11_ptr (d3d11Resource wd)])"
  proof (intro impI, elim conjE)
    assume size12: "res_width r = Width (tex_desc src)" "res_height r = Height (tex_desc src)"
      and env: "CreateWrappedResource_result cenv \<noteq> None" "CreateStagingTexture_result cenv \<noteq> None"
               "Map_result cenv \<noteq> None"
      and members: "m_captureD3D11Device s \<noteq> None" "m_captureD3D11Context s \<noteq> None"
                   "m_d3d11On12Device s \<noteq> None" "m_d3d11Context s \<noteq> None"
    from GetOrCreateWrappedResource_wraps [OF members(3) env(1)] obtain wd s2 where
      g2: "GetOrCreateWrappedResource (CreateWrappedResource_result cenv) s r = (Some wd, s2)"
      by blast
    from env obtain stagingTexture mapped where
      st: "CreateStagingTexture_result cenv = Some stagingTexture" and
      mp: "Map_result cenv = Some mapped"
      by auto
    from Copy_D3D12_reaches_update [OF size12 g2 st mp members, of flipY] obtain s' where
      copy: "CopyCapturedTextureToUnityTexture_D3D12 cenv s (Some src) (Some r) flipY = Some s'" and
      kept: "m_wrappedResources s' = m_wrappedResources s2" and
      acq: "acquired (calls s') = acquired (calls s) @ [res11_ptr (d3d11Resource wd)]"
      by blast
    from GetOrCreateWrappedResource_never_stale(1) [OF g2] have
      "\<not> stale_for wd r" "m_wrappedResources s2 (res_ptr r) = Some wd"
      by simp_all
    with copy kept acq g2 show
      "\<exists>s' wd. CopyCapturedTextureToUnityTexture_D3D12 cenv s (Some src) (Some r) flipY = Some s' \<and>
               fst (GetOrCreateWrappedResource (CreateWrappedResource_result cenv) s r) = Some wd \<and>
               \<not> stale_for wd r \<and>
               m_wrappedResources s' (res_ptr r) = Some wd \<and>
               acquired (calls s') = acquired (calls s) @ [res11_ptr (d3d11Resource wd)]"
      by auto
  qed
  have c12: "EndRenderToTexture_D3D12 s None = Some s"
    by (rule EndRenderToTexture_releases)
  have c13: "m_d3d11On12Device s = None \<longrightarrow> EndRenderToTexture_D3D12 s ptr = Some s"
    by (blast intro: EndRenderToTexture_releases)
  have c14: "m_wrappedResources s p = None \<longrightarrow> EndRenderToTexture_D3D12 s (Some p) = Some s"
    by (blast intro: EndRenderToTexture_releases)
  have c15: "m_d3d11On12Device s \<noteq> None \<and> m_d3d11Context s \<noteq> None \<and>
    m_wrappedResources s p = Some kept \<longrightarrow>
      EndRenderToTexture_D3D12 s (Some p) =
        Some (s\<lparr>calls := calls s @
                  [Call_ReleaseWrappedResources (res11_ptr (d3d11Resource kept)), Call_Flush]\<rparr>)"
    by (blast intro: EndRenderToTexture_releases)
  show ?thesis
    by (intro conjI) (fact c1 c2 c3 c4 c5 c6 c7 c8 c9 c10 c11 c12 c13 c14 c15)+
qed

theorem wrap_cache_invariant_witness:
  "wrap_cache_inv ex_d3d12_stale \<and>
   m_wrappedResources ex_d3d12_stale 50 =
     Some \<lparr>d3d12Resource = 50,
            d3d11Resource = \<lparr>res11_ptr = 60,
                              as_texture2d = Some \<lparr>Width = 800, Height = 600\<rparr>\<rparr>\<rparr> \<and>
   stale_for \<lparr>d3d12Resource = 50,
               d3d11Resource = \<lparr>res11_ptr = 60,
                                 as_texture2d = Some \<lparr>Width = 800, Height = 600\<rparr>\<rparr>\<rparr>
     ex_resized_resource \<and>
   BeginRenderToTexture_D3D12 (Some 61) ex_d3d12_stale (Some ex_resized_resource) =
     ex_d3d12_stale
       \<lparr>m_wrappedResources :=
          (m_wrappedResources ex_d3d12_stale)
            (50 \<mapsto> \<lparr>d3d12Resource = 50,
                     d3d11Resource = \<lparr>res11_ptr = 61,
                                       as_texture2d = Some \<lparr>Width = 1024, Height = 768\<rparr>\<rparr>\<rparr>),
        calls := calls ex_d3d12_stale @
          [Call_CreateWrappedResource 50, Call_AcquireWrappedResources 61]\<rparr> \<and>
   wrap_cache_inv (BeginRenderToTexture_D3D12 (Some 61) ex_d3d12_stale (Some ex_resized_resource)) \<and>
   (\<exists>s'. CopyCapturedTextureToUnityTexture_D3D12 ex_copy ex_d3d12_stale
            (Some \<lparr>tex_ptr = 70, tex_desc = \<lparr>Width = 1024, Height = 768\<rparr>\<rparr>)
            (Some ex_resized_resource) True = Some s' \<and>
         m_wrappedResources s' 50 =
           Some \<lparr>d3d12Resource = 50,
                  d3d11Resource = \<lparr>res11_ptr = 61,
                                    as_texture2d = Some \<lparr>Width = 1024, Height = 768\<rparr>\<rparr>\<rparr> \<and>
         acquired (calls s') = acquired (calls ex_d3d12_stale) @ [61]) \<and>
   EndRenderToTexture_D3D12 ex_d3d12_stale (Some 50) =
     Some (ex_d3d12_stale\<lparr>calls := calls ex_d3d12_stale @
                               [Call_ReleaseWrappedResources 60, Call_Flush]\<rparr>) \<and>
   m_wrappedResources (DestroySharedTexture_D3D12 ex_d3d12_stale (Some 50)) 50 = None \<and>
   BeginRenderToTexture_D3D12 (Some 61) RenderAPI_D3D12_new (Some ex_resized_resource) =
     RenderAPI_D3D12_new \<and>
   EndRenderToTexture_D3D12 RenderAPI_D3D12_new (Some 50) = Some RenderAPI_D3D12_new"
proof -
  let ?old = "\<lparr>d3d12Resource = 50,
               d3d11Resource = \<lparr>res11_ptr = 60,
                                 as_texture2d = Some \<lparr>Width = 800, Height = 600\<rparr>\<rparr>\<rparr>"
  let ?new = "\<lparr>d3d12Resource = 50,
               d3d11Resource = \<lparr>res11_ptr = 61,
                                 as_texture2d = Some \<lparr>Width = 1024, Height = 768\<rparr>\<rparr>\<rparr>"
  let ?src = "\<lparr>tex_ptr = 70, tex_desc = \<lparr>Width = 1024, Height = 768\<rparr>\<rparr>"
  have ptr: "res_ptr ex_resized_resource = 50"
    and size12: "res_width ex_resized_resource = Width (tex_desc ?src)"
                "res_height ex_resized_resource = Height (tex_desc ?src)"
    by (simp_all add: ex_resized_resource_def)
  have inv: "wrap_cache_inv ex_d3d12_stale"
    by (simp add: wrap_cache_inv_def ex_d3d12_stale_eq ex_d3d12_wrapped_eq ex_d3d12_tex_eq
          ex_d3d12_eq)
  have live: "res_ptr ex_resized_resource \<in> dom (textures ex_d3d12_stale)"
    by (simp add: ptr ex_d3d12_stale_eq)
  have members: "m_captureD3D11Device ex_d3d12_stale \<noteq> None"
    "m_captureD3D11Context ex_d3d12_stale \<noteq> None"
    "m_d3d11On12Device ex_d3d12_stale \<noteq> None" "m_d3d11Context ex_d3d12_stale \<noteq> None"
    by (simp_all add: ex_d3d12_stale_eq ex_d3d12_wrapped_eq ex_d3d12_tex_eq ex_d3d12_eq)
  have cached: "m_wrappedResources ex_d3d12_stale (res_ptr ex_resized_resource) = Some ?old"
    by (simp add: ptr ex_d3d12_stale_eq ex_d3d12_wrapped_eq)
  have stale: "stale_for ?old ex_resized_resource"
    by (simp add: stale_for_def ex_resized_resource_def GetDesc12_def)
  have answers: "CreateWrappedResource_result ex_copy = Some 61"
    "CreateStagingTexture_result ex_copy \<noteq> None" "Map_result ex_copy \<noteq> None"
    by (simp_all add: ex_copy_def)
  have built: "fst (GetOrCreateWrappedResource (Some 61) ex_d3d12_stale ex_resized_resource) =
               Some ?new"
    using cached stale
    by (simp add: GetOrCreateWrappedResource_def WrapAndStore_def stale_for_def GetDesc12_def
          ex_resized_resource_def members Let_def ucast_widen_narrow)
  have unbound: "m_d3d11On12Device RenderAPI_D3D12_new = None"
    by (simp add: RenderAPI_D3D12_new_def)
  note t = wrap_cache_invariant
         [where s = ex_d3d12_stale and r = ex_resized_resource and wres = "Some 61" and p = 50
            and ptr = "Some 50" and old = ?old and kept = ?old and cenv = ex_copy
            and src = ?src and flipY = True]
  note n = wrap_cache_invariant
         [where s = RenderAPI_D3D12_new and r = ex_resized_resource and wres = "Some 61"
            and ptr = "Some 50"]
  have dims: "res_width ex_resized_resource = 1024" "res_height ex_resized_resource = 768"
    by (simp_all add: ex_resized_resource_def)
  from t [unfolded ptr, THEN conjunct2, THEN conjunct2, THEN conjunct2, THEN conjunct2, THEN conjunct2, THEN conjunct2, THEN conjunct2, THEN conjunct2, THEN conjunct1] members(3) cached [unfolded ptr] stale have begun:
    "BeginRenderToTexture_D3D12 (Some 61) ex_d3d12_stale (Some ex_resized_resource) =
       ex_d3d12_stale
         \<lparr>m_wrappedResources := (m_wrappedResources ex_d3d12_stale)(50 \<mapsto> ?new),
          calls := calls ex_d3d12_stale @
            [Call_CreateWrappedResource 50, Call_AcquireWrappedResources 61]\<rparr>"
    by (simp add: dims)
  from t [THEN conjunct2, THEN conjunct1] inv live have kept:
    "wrap_cache_inv (BeginRenderToTexture_D3D12 (Some 61) ex_d3d12_stale (Some ex_resized_resource))"
    by blast
  from t [unfolded ptr, THEN conjunct2, THEN conjunct2, THEN conjunct2, THEN conjunct2, THEN conjunct2, THEN conjunct2, THEN conjunct2, THEN conjunct2, THEN conjunct2, THEN conjunct2, THEN conjunct1] size12 answers members obtain s' wd where
    copy: "CopyCapturedTextureToUnityTexture_D3D12 ex_copy ex_d3d12_stale (Some ?src)
             (Some ex_resized_resource) True = Some s'" and
    wd: "fst (GetOrCreateWrappedResource (CreateWrappedResource_result ex_copy) ex_d3d12_stale
               ex_resized_resource) = Some wd" and
    entry: "m_wrappedResources s' 50 = Some wd" and
    acq: "acquired (calls s') = acquired (calls ex_d3d12_stale) @ [res11_ptr (d3d11Resource wd)]"
    by auto
  from wd built have "wd = ?new"
    by (simp add: answers)
  with copy entry acq have copied:
    "\<exists>s'. CopyCapturedTextureToUnityTexture_D3D12 ex_copy ex_d3d12_stale (Some ?src)
             (Some ex_resized_resource) True = Some s' \<and>
          m_wrappedResources s' 50 = Some ?new \<and>
          acquired (calls s') = acquired (calls ex_d3d12_stale) @ [61]"
    by simp
  from t [unfolded ptr, THEN conjunct2, THEN conjunct2, THEN conjunct2, THEN conjunct2, THEN conjunct2, THEN conjunct2, THEN conjunct2, THEN conjunct2, THEN conjunct2, THEN conjunct2, THEN conjunct2, THEN conjunct2, THEN conjunct2, THEN conjunct2] members(3,4) cached [unfolded ptr] have ended:
    "EndRenderToTexture_D3D12 ex_d3d12_stale (Some 50) =
       Some (ex_d3d12_stale\<lparr>calls := calls ex_d3d12_stale @
                                 [Call_ReleaseWrappedResources 60, Call_Flush]\<rparr>)"
    by simp
  from t [THEN conjunct2, THEN conjunct2, THEN conjunct1] have destroyed:
    "m_wrappedResources (DestroySharedTexture_D3D12 ex_d3d12_stale (Some 50)) 50 = None" .
  from n [THEN conjunct2, THEN conjunct2, THEN conjunct2, THEN conjunct2, THEN conjunct2, THEN conjunct2, THEN conjunct1] n [THEN conjunct2, THEN conjunct2, THEN conjunct2, THEN conjunct2, THEN conjunct2, THEN conjunct2, THEN conjunct2, THEN conjunct2, THEN conjunct2, THEN conjunct2, THEN conjunct2, THEN conjunct2, THEN conjunct1] unbound have idle:
    "BeginRenderToTexture_D3D12 (Some 61) RenderAPI_D3D12_new (Some ex_resized_resource) =
       RenderAPI_D3D12_new"
    "EndRenderToTexture_D3D12 RenderAPI_D3D12_new (Some 50) = Some RenderAPI_D3D12_new"
    by blast+
  from inv cached [unfolded ptr] stale begun kept copied ended destroyed idle show ?thesis
    by (intro conjI)
qed

end
